theory Spec2Isabelle
  imports Complex_Main "HOL-Library.AList"
begin

section \<open>JavaScript numbers\<close>

text \<open>
  A JavaScript \<open>number\<close> is modelled by a rational with exact arithmetic, extended by the
  three non-finite values of IEEE 754, so that a division by zero is a value of the model as
  it is a value of the program. Rounding errors of the binary representation and the sign
  of zero are not modelled.
\<close>

datatype jsnum = Fin rat | PosInf | NegInf | NaN

instantiation jsnum :: "{uminus, plus, minus, times, inverse, ord}"
begin

fun uminus_jsnum :: "jsnum \<Rightarrow> jsnum" where
  "uminus_jsnum (Fin a) = Fin (- a)"
| "uminus_jsnum PosInf = NegInf"
| "uminus_jsnum NegInf = PosInf"
| "uminus_jsnum NaN = NaN"

fun plus_jsnum :: "jsnum \<Rightarrow> jsnum \<Rightarrow> jsnum" where
  "plus_jsnum (Fin a) (Fin b) = Fin (a + b)"
| "plus_jsnum (Fin a) PosInf = PosInf"
| "plus_jsnum (Fin a) NegInf = NegInf"
| "plus_jsnum PosInf (Fin b) = PosInf"
| "plus_jsnum PosInf PosInf = PosInf"
| "plus_jsnum PosInf NegInf = NaN"
| "plus_jsnum NegInf (Fin b) = NegInf"
| "plus_jsnum NegInf PosInf = NaN"
| "plus_jsnum NegInf NegInf = NegInf"
| "plus_jsnum NaN y = NaN"
| "plus_jsnum x NaN = NaN"

definition minus_jsnum :: "jsnum \<Rightarrow> jsnum \<Rightarrow> jsnum" where
  "minus_jsnum x y = x + (- y)"

fun times_jsnum :: "jsnum \<Rightarrow> jsnum \<Rightarrow> jsnum" where
  "times_jsnum (Fin a) (Fin b) = Fin (a * b)"
| "times_jsnum (Fin a) PosInf = (if a = 0 then NaN else if 0 < a then PosInf else NegInf)"
| "times_jsnum (Fin a) NegInf = (if a = 0 then NaN else if 0 < a then NegInf else PosInf)"
| "times_jsnum PosInf (Fin b) = (if b = 0 then NaN else if 0 < b then PosInf else NegInf)"
| "times_jsnum NegInf (Fin b) = (if b = 0 then NaN else if 0 < b then NegInf else PosInf)"
| "times_jsnum PosInf PosInf = PosInf"
| "times_jsnum PosInf NegInf = NegInf"
| "times_jsnum NegInf PosInf = NegInf"
| "times_jsnum NegInf NegInf = PosInf"
| "times_jsnum NaN y = NaN"
| "times_jsnum x NaN = NaN"

fun divide_jsnum :: "jsnum \<Rightarrow> jsnum \<Rightarrow> jsnum" where
  "divide_jsnum (Fin a) (Fin b) =
     (if b = 0 then (if a = 0 then NaN else if 0 < a then PosInf else NegInf)
      else Fin (a / b))"
| "divide_jsnum (Fin a) PosInf = Fin 0"
| "divide_jsnum (Fin a) NegInf = Fin 0"
| "divide_jsnum PosInf (Fin b) = (if 0 \<le> b then PosInf else NegInf)"
| "divide_jsnum NegInf (Fin b) = (if 0 \<le> b then NegInf else PosInf)"
| "divide_jsnum PosInf PosInf = NaN"
| "divide_jsnum PosInf NegInf = NaN"
| "divide_jsnum NegInf PosInf = NaN"
| "divide_jsnum NegInf NegInf = NaN"
| "divide_jsnum NaN y = NaN"
| "divide_jsnum x NaN = NaN"

definition inverse_jsnum :: "jsnum \<Rightarrow> jsnum" where
  "inverse_jsnum x = divide (Fin 1) x"

text \<open>Comparisons with \<open>NaN\<close> are false, so \<open>\<not> x < y\<close> is not \<open>y \<le> x\<close> here.\<close>

fun less_eq_jsnum :: "jsnum \<Rightarrow> jsnum \<Rightarrow> bool" where
  "less_eq_jsnum (Fin a) (Fin b) = (a \<le> b)"
| "less_eq_jsnum (Fin a) PosInf = True"
| "less_eq_jsnum (Fin a) NegInf = False"
| "less_eq_jsnum PosInf (Fin b) = False"
| "less_eq_jsnum PosInf PosInf = True"
| "less_eq_jsnum PosInf NegInf = False"
| "less_eq_jsnum NegInf (Fin b) = True"
| "less_eq_jsnum NegInf PosInf = True"
| "less_eq_jsnum NegInf NegInf = True"
| "less_eq_jsnum NaN y = False"
| "less_eq_jsnum x NaN = False"

fun less_jsnum :: "jsnum \<Rightarrow> jsnum \<Rightarrow> bool" where
  "less_jsnum (Fin a) (Fin b) = (a < b)"
| "less_jsnum (Fin a) PosInf = True"
| "less_jsnum (Fin a) NegInf = False"
| "less_jsnum PosInf (Fin b) = False"
| "less_jsnum PosInf PosInf = False"
| "less_jsnum PosInf NegInf = False"
| "less_jsnum NegInf (Fin b) = True"
| "less_jsnum NegInf PosInf = True"
| "less_jsnum NegInf NegInf = False"
| "less_jsnum NaN y = False"
| "less_jsnum x NaN = False"

instance ..

end

text \<open>\<open>Math.min\<close>, \<open>Math.max\<close>, \<open>Math.round\<close> (halves go up), \<open>Math.floor\<close>, \<open>Math.abs\<close>.\<close>

definition js_min :: "jsnum \<Rightarrow> jsnum \<Rightarrow> jsnum" where
  "js_min x y = (if x = NaN \<or> y = NaN then NaN else if x \<le> y then x else y)"

definition js_max :: "jsnum \<Rightarrow> jsnum \<Rightarrow> jsnum" where
  "js_max x y = (if x = NaN \<or> y = NaN then NaN else if x \<le> y then y else x)"

fun js_round :: "jsnum \<Rightarrow> jsnum" where
  "js_round (Fin a) = Fin (of_int \<lfloor>a + 1 / 2\<rfloor>)"
| "js_round x = x"

fun js_floor :: "jsnum \<Rightarrow> jsnum" where
  "js_floor (Fin a) = Fin (of_int \<lfloor>a\<rfloor>)"
| "js_floor x = x"

fun js_abs :: "jsnum \<Rightarrow> jsnum" where
  "js_abs (Fin a) = Fin \<bar>a\<bar>"
| "js_abs PosInf = PosInf"
| "js_abs NegInf = PosInf"
| "js_abs NaN = NaN"

definition of_length :: "'a list \<Rightarrow> jsnum" where
  \<comment> \<open>\<open>xs.length\<close> read as a number\<close>
  "of_length xs = Fin (of_nat (length xs))"

definition num_of :: "jsnum option \<Rightarrow> jsnum" where
  \<comment> \<open>an optional number in arithmetic: \<open>undefined\<close> converts to \<open>NaN\<close>\<close>
  "num_of v = (case v of None \<Rightarrow> NaN | Some x \<Rightarrow> x)"

section \<open>Data model (models/types.ts)\<close>

text \<open>A \<open>Date\<close> is its time value in milliseconds; invalid dates are not modelled.\<close>

type_synonym date = int

datatype ContractStatus = CS_ACTIVE | CS_PENDING | CS_EXPIRED | CS_CANCELLED | CS_RENEWED

datatype BillingFrequency = MONTHLY | QUARTERLY | ANNUALLY | ONE_TIME

datatype InvoiceStatus = DRAFT | SENT | PAID | OVERDUE | VOID | PARTIAL

datatype SubscriptionStatus = SS_ACTIVE | SS_SUSPENDED | SS_CANCELLED | SS_EXPIRED

datatype RiskLevel = LOW | MEDIUM | HIGH | CRITICAL

datatype Impact = positive | negative | neutral

datatype UnderbillingType = USAGE_OVERAGE | MISSING_INVOICE | RATE_MISMATCH | QUANTITY_MISMATCH

datatype AlertSeverity = SEV_LOW | SEV_MEDIUM | SEV_HIGH

datatype RiskType = CHURN | DOWNGRADE | LATE_RENEWAL | PRICE_SENSITIVITY

datatype RiskStatus = NEW | ACKNOWLEDGED | IN_PROGRESS | RESOLVED

record Contract =
  id :: string
  customerId :: string
  customerName :: string
  contractNumber :: string
  startDate :: date
  endDate :: date
  renewalDate :: date
  totalValue :: jsnum
  currency :: string
  status :: ContractStatus
  billingFrequency :: BillingFrequency
  autoRenewal :: bool
  terms :: string
  createdAt :: date
  updatedAt :: date

record InvoiceLineItem =
  id :: string
  description :: string
  quantity :: jsnum
  unitPrice :: jsnum
  amount :: jsnum

record Invoice =
  id :: string
  contractId :: string
  invoiceNumber :: string
  customerId :: string
  amount :: jsnum
  currency :: string
  dueDate :: date
  paidDate :: "date option"
  status :: InvoiceStatus
  lineItems :: "InvoiceLineItem list"
  createdAt :: date

record Subscription =
  id :: string
  contractId :: string
  customerId :: string
  productId :: string
  productName :: string
  quantity :: jsnum
  unitPrice :: jsnum
  totalPrice :: jsnum
  usageAmount :: "jsnum option"
  usageLimit :: "jsnum option"
  startDate :: date
  endDate :: date
  status :: SubscriptionStatus

record ScoreFactor =
  name :: string
  weight :: jsnum
  "value" :: jsnum
  impact :: Impact
  description :: string

record RenewalHealthScore =
  contractId :: string
  customerId :: string
  score :: jsnum
  riskLevel :: RiskLevel
  factors :: "ScoreFactor list"
  recommendations :: "string list"
  calculatedAt :: date

record UnderbillingAlert =
  id :: string
  contractId :: string
  customerId :: string
  type :: UnderbillingType
  expectedAmount :: jsnum
  actualAmount :: jsnum
  difference :: jsnum
  period :: string
  severity :: AlertSeverity
  detectedAt :: date
  resolved :: bool

datatype numstr = Num jsnum | Str string

record RiskIndicator =
  name :: string
  "value" :: numstr
  threshold :: numstr
  exceeded :: bool

record RenewalRisk =
  id :: string
  contractId :: string
  customerId :: string
  riskType :: RiskType
  riskScore :: jsnum
  indicators :: "RiskIndicator list"
  flaggedAt :: date
  status :: RiskStatus

section \<open>Platform and helper functions outside the sources\<close>

text \<open>
  The module \<open>utils/helpers\<close> and the JavaScript runtime are not part of the sources at
  hand. What the services use of them is a parameter of the model: the clock read by
  \<open>new Date()\<close> (one reading per call of a service), the helpers \<open>daysBetween\<close>,
  \<open>isWithinDays\<close> and \<open>generateId\<close> (the identifier of the \<open>n\<close>-th call), and the
  formatting functions of numbers and dates. The helpers \<open>clamp\<close> and
  \<open>calculatePercentage\<close>, on which results depend, are defined after the specification and
  the unit tests. Calls of the logger have no effect on any result and are left out.
\<close>

record env =
  now :: date
  daysBetween :: "date \<Rightarrow> date \<Rightarrow> jsnum"
  isWithinDays :: "date \<Rightarrow> jsnum \<Rightarrow> bool"
  generateId :: "nat \<Rightarrow> string"
  toISOString :: "date \<Rightarrow> string"
  toFixed :: "jsnum \<Rightarrow> nat \<Rightarrow> string"
  toLocaleString :: "jsnum \<Rightarrow> string"
  toString :: "jsnum \<Rightarrow> string"

definition clamp :: "jsnum \<Rightarrow> jsnum \<Rightarrow> jsnum \<Rightarrow> jsnum" where
  \<comment> \<open>Modelled from the spec: \<open>clamp\<close> of \<open>utils/helpers\<close> is missing from the sources;
      the spec clamps a value to \<open>[min, max]\<close>, and \<open>tests/unit/helpers.test.ts\<close> expects
      \<open>clamp(50,0,100) = 50\<close>, \<open>clamp(-10,0,100) = 0\<close> and \<open>clamp(150,0,100) = 100\<close>.\<close>
  "clamp v lo hi = js_min (js_max v lo) hi"

definition calculatePercentage :: "jsnum \<Rightarrow> jsnum \<Rightarrow> jsnum" where
  \<comment> \<open>Modelled from the spec: \<open>calculatePercentage\<close> of \<open>utils/helpers\<close> is missing from
      the sources; the spec has the usage percentage as \<open>usageAmount/usageLimit\<times>100\<close>, and
      \<open>tests/unit/helpers.test.ts\<close> expects 0 when the total is 0 and a result rounded to
      a whole number (\<open>calculatePercentage(1, 3) = 33\<close>).\<close>
  "calculatePercentage v tot =
     (if tot = Fin 0 then Fin 0 else js_round ((v / tot) * Fin 100))"

section \<open>Renewal health scoring engine (class RenewalScoringEngine)\<close>

record ScoringConfig =
  invoiceOverdueWeight :: jsnum
  usageDeclineWeight :: jsnum
  supportTicketWeight :: jsnum
  contractValueWeight :: jsnum
  renewalProximityWeight :: jsnum
  riskThreshold :: jsnum
  criticalThreshold :: jsnum

definition config_scoring :: ScoringConfig where
  \<comment> \<open>\<open>config.scoring\<close>, the value of the field \<open>weights\<close> of the engine\<close>
  "config_scoring =
     \<lparr> invoiceOverdueWeight = Fin (25 / 100),
       usageDeclineWeight = Fin (20 / 100),
       supportTicketWeight = Fin (15 / 100),
       contractValueWeight = Fin (15 / 100),
       renewalProximityWeight = Fin (25 / 100),
       riskThreshold = Fin 60,
       criticalThreshold = Fin 40 \<rparr>"

definition impact_of_score :: "jsnum \<Rightarrow> Impact" where
  \<comment> \<open>\<open>factorScore >= 80 ? 'positive' : factorScore >= 50 ? 'neutral' : 'negative'\<close>\<close>
  "impact_of_score factorScore =
     (if factorScore \<ge> Fin 80 then positive
      else if factorScore \<ge> Fin 50 then neutral else negative)"

definition calculateInvoiceFactor :: "env \<Rightarrow> ScoringConfig \<Rightarrow> Invoice list \<Rightarrow> ScoreFactor" where
  "calculateInvoiceFactor e weights invoices =
     (if length invoices = 0 then
        \<lparr> ScoreFactor.name = ''Invoice Status'',
          weight = invoiceOverdueWeight weights,
          ScoreFactor.value = Fin 100,
          impact = neutral,
          ScoreFactor.description = ''No invoices to evaluate'' \<rparr>
      else
        let overdueInvoices = filter (\<lambda>inv. Invoice.status inv = OVERDUE) invoices;
            overdueCount = of_length overdueInvoices;
            totalOverdueAmount = foldl (\<lambda>sum inv. sum + Invoice.amount inv) (Fin 0) overdueInvoices;
            overdueRatio = overdueCount / of_length invoices;
            factorScore = Fin 100 - (overdueRatio * Fin 100);
            factorScore =
              (if totalOverdueAmount > Fin 10000 then factorScore - Fin 20
               else if totalOverdueAmount > Fin 5000 then factorScore - Fin 10
               else factorScore);
            factorScore = clamp factorScore (Fin 0) (Fin 100)
        in \<lparr> ScoreFactor.name = ''Invoice Status'',
             weight = invoiceOverdueWeight weights,
             ScoreFactor.value = factorScore,
             impact = impact_of_score factorScore,
             ScoreFactor.description =
               (if overdueCount > Fin 0
                then toString e overdueCount @ '' overdue invoice(s) totaling $''
                       @ toFixed e totalOverdueAmount 2
                else ''All invoices paid on time'') \<rparr>)"

definition subsWithUsage :: "Subscription list \<Rightarrow> Subscription list" where
  "subsWithUsage subscriptions =
     filter (\<lambda>sub. usageAmount sub \<noteq> None \<and> usageLimit sub \<noteq> None) subscriptions"

definition usagePercentages :: "Subscription list \<Rightarrow> jsnum list" where
  "usagePercentages subscriptions =
     map (\<lambda>sub. calculatePercentage (num_of (usageAmount sub)) (num_of (usageLimit sub)))
       (subsWithUsage subscriptions)"

definition avgUsage :: "Subscription list \<Rightarrow> jsnum" where
  "avgUsage subscriptions =
     foldl (\<lambda>a b. a + b) (Fin 0) (usagePercentages subscriptions)
       / of_length (usagePercentages subscriptions)"

definition calculateUsageFactor :: "env \<Rightarrow> ScoringConfig \<Rightarrow> Subscription list \<Rightarrow> ScoreFactor" where
  "calculateUsageFactor e weights subscriptions =
     (if length subscriptions = 0 then
        \<lparr> ScoreFactor.name = ''Usage Trend'',
          weight = usageDeclineWeight weights,
          ScoreFactor.value = Fin 100,
          impact = neutral,
          ScoreFactor.description = ''No subscriptions to evaluate'' \<rparr>
      else if length (subsWithUsage subscriptions) = 0 then
        \<lparr> ScoreFactor.name = ''Usage Trend'',
          weight = usageDeclineWeight weights,
          ScoreFactor.value = Fin 75,
          impact = neutral,
          ScoreFactor.description = ''No usage data available'' \<rparr>
      else
        let avg = avgUsage subscriptions;
            (factorScore, imp, descr) =
              (if avg \<ge> Fin 70 then
                 (Fin 100, positive,
                  ''High engagement: '' @ toFixed e avg 0 @ ''% average usage'')
               else if avg \<ge> Fin 40 then
                 (Fin 70, neutral,
                  ''Moderate engagement: '' @ toFixed e avg 0 @ ''% average usage'')
               else if avg \<ge> Fin 20 then
                 (Fin 40, negative,
                  ''Low engagement: '' @ toFixed e avg 0 @ ''% average usage'')
               else
                 (Fin 20, negative,
                  ''Very low engagement: '' @ toFixed e avg 0
                    @ ''% average usage - churn risk''))
        in \<lparr> ScoreFactor.name = ''Usage Trend'',
             weight = usageDeclineWeight weights,
             ScoreFactor.value = factorScore,
             impact = imp,
             ScoreFactor.description = descr \<rparr>)"

definition calculateValueFactor :: "env \<Rightarrow> ScoringConfig \<Rightarrow> Contract \<Rightarrow> ScoreFactor" where
  "calculateValueFactor e weights contract =
     (let v = totalValue contract;
          (factorScore, imp, descr) =
            (if v \<ge> Fin 100000 then
               (Fin 100, positive, ''Enterprise contract: $'' @ toLocaleString e v)
             else if v \<ge> Fin 50000 then
               (Fin 85, positive, ''Large contract: $'' @ toLocaleString e v)
             else if v \<ge> Fin 10000 then
               (Fin 70, neutral, ''Mid-tier contract: $'' @ toLocaleString e v)
             else if v \<ge> Fin 1000 then
               (Fin 50, neutral, ''Small contract: $'' @ toLocaleString e v)
             else
               (Fin 30, negative, ''Micro contract: $'' @ toLocaleString e v))
      in \<lparr> ScoreFactor.name = ''Contract Value'',
           weight = contractValueWeight weights,
           ScoreFactor.value = factorScore,
           impact = imp,
           ScoreFactor.description = descr \<rparr>)"

definition calculateRenewalProximityFactor :: "env \<Rightarrow> ScoringConfig \<Rightarrow> Contract \<Rightarrow> ScoreFactor" where
  "calculateRenewalProximityFactor e weights contract =
     (let daysUntilRenewal = daysBetween e (now e) (renewalDate contract);
          (factorScore, imp, descr) =
            (if daysUntilRenewal \<le> Fin 0 then
               (Fin 20, negative, ''Contract has passed renewal date!'')
             else if daysUntilRenewal \<le> Fin 30 then
               (Fin 40, negative,
                ''Urgent: '' @ toString e daysUntilRenewal @ '' days until renewal'')
             else if daysUntilRenewal \<le> Fin 60 then
               (Fin 60, neutral,
                ''Approaching: '' @ toString e daysUntilRenewal @ '' days until renewal'')
             else if daysUntilRenewal \<le> Fin 90 then
               (Fin 80, neutral, toString e daysUntilRenewal @ '' days until renewal'')
             else
               (Fin 100, positive,
                toString e daysUntilRenewal @ '' days until renewal - plenty of time''));
          (factorScore, descr) =
            (if autoRenewal contract
             then (js_min (factorScore + Fin 10) (Fin 100), descr @ '' (Auto-renewal enabled)'')
             else (factorScore, descr))
      in \<lparr> ScoreFactor.name = ''Renewal Proximity'',
           weight = renewalProximityWeight weights,
           ScoreFactor.value = factorScore,
           impact = imp,
           ScoreFactor.description = descr \<rparr>)"

definition paidWithDate :: "Invoice list \<Rightarrow> Invoice list" where
  \<comment> \<open>\<open>invoices.filter(inv => inv.status === InvoiceStatus.PAID && inv.paidDate)\<close>\<close>
  "paidWithDate invoices =
     filter (\<lambda>inv. Invoice.status inv = PAID \<and> paidDate inv \<noteq> None) invoices"

definition lateStep :: "env \<Rightarrow> jsnum \<times> nat \<Rightarrow> Invoice \<Rightarrow> jsnum \<times> nat" where
  \<comment> \<open>the body of the loop over the paid invoices, on \<open>(totalDaysLate, lateCount)\<close>\<close>
  "lateStep e acc invoice =
     (case paidDate invoice of
        None \<Rightarrow> acc
      | Some pd \<Rightarrow>
          let daysToPay = daysBetween e (dueDate invoice) pd
          in if daysToPay > Fin 0 then (fst acc + daysToPay, snd acc + 1) else acc)"

definition calculatePaymentHistoryFactor :: "env \<Rightarrow> Invoice list \<Rightarrow> ScoreFactor" where
  "calculatePaymentHistoryFactor e invoices =
     (let paidInvoices = paidWithDate invoices in
      if length paidInvoices = 0 then
        \<lparr> ScoreFactor.name = ''Payment History'',
          weight = Fin (10 / 100),
          ScoreFactor.value = Fin 75,
          impact = neutral,
          ScoreFactor.description = ''No payment history available'' \<rparr>
      else
        let (totalDaysLate, lateCount) = foldl (lateStep e) (Fin 0, 0) paidInvoices;
            avgDaysLate =
              (if lateCount > 0 then totalDaysLate / Fin (of_nat lateCount) else Fin 0);
            onTimeRatio =
              (of_length paidInvoices - Fin (of_nat lateCount)) / of_length paidInvoices;
            factorScore = (onTimeRatio * Fin 100) - (avgDaysLate * Fin 2);
            factorScore = clamp factorScore (Fin 0) (Fin 100);
            (imp, descr) =
              (if factorScore \<ge> Fin 80 then
                 (positive,
                  ''Excellent payment history: '' @ toFixed e (onTimeRatio * Fin 100) 0
                    @ ''% on-time'')
               else if factorScore \<ge> Fin 50 then
                 (neutral,
                  ''Average payment history: '' @ toFixed e avgDaysLate 0 @ '' avg days late'')
               else
                 (negative,
                  ''Poor payment history: '' @ toFixed e avgDaysLate 0 @ '' avg days late''))
        in \<lparr> ScoreFactor.name = ''Payment History'',
             weight = Fin (10 / 100),
             ScoreFactor.value = factorScore,
             impact = imp,
             ScoreFactor.description = descr \<rparr>)"

definition weightedSum :: "ScoreFactor list \<Rightarrow> jsnum" where
  "weightedSum fs =
     foldl (\<lambda>acc factor. acc + ScoreFactor.value factor * weight factor) (Fin 0) fs"

definition totalWeight :: "ScoreFactor list \<Rightarrow> jsnum" where
  "totalWeight fs = foldl (\<lambda>acc factor. acc + weight factor) (Fin 0) fs"

definition calculateWeightedScore :: "ScoreFactor list \<Rightarrow> jsnum" where
  "calculateWeightedScore fs =
     (let sc = (if totalWeight fs > Fin 0 then weightedSum fs / totalWeight fs else Fin 50)
      in js_round (clamp sc (Fin 0) (Fin 100)))"

definition determineRiskLevel :: "ScoringConfig \<Rightarrow> jsnum \<Rightarrow> RiskLevel" where
  "determineRiskLevel weights sc =
     (if sc \<ge> Fin 80 then LOW
      else if sc \<ge> riskThreshold weights then MEDIUM
      else if sc \<ge> criticalThreshold weights then HIGH
      else CRITICAL)"

definition recommendationsFor :: "ScoreFactor \<Rightarrow> string list" where
  \<comment> \<open>the \<open>switch\<close> on the name of a negative factor\<close>
  "recommendationsFor factor =
     (if ScoreFactor.name factor = ''Invoice Status'' then
        [''Follow up on overdue invoices immediately'',
         ''Consider offering payment plan options'']
      else if ScoreFactor.name factor = ''Usage Trend'' then
        [''Schedule customer success check-in'',
         ''Offer training or onboarding refresher'',
         ''Review if current plan fits customer needs'']
      else if ScoreFactor.name factor = ''Contract Value'' then
        [''Identify upsell opportunities'', ''Review pricing strategy'']
      else if ScoreFactor.name factor = ''Renewal Proximity'' then
        [''Initiate renewal conversation immediately'',
         ''Prepare renewal proposal with value summary'']
      else if ScoreFactor.name factor = ''Payment History'' then
        [''Review credit terms with customer'', ''Set up automated payment reminders'']
      else [])"

definition uniq :: "'a list \<Rightarrow> 'a list" where
  \<comment> \<open>\<open>[...new Set(xs)]\<close>: the first occurrence of each element, in order\<close>
  "uniq xs = rev (remdups (rev xs))"

definition generateRecommendations :: "ScoreFactor list \<Rightarrow> RiskLevel \<Rightarrow> string list" where
  "generateRecommendations fs level =
     (let negativeFactors = filter (\<lambda>f. impact f = negative) fs;
          recs = concat (map recommendationsFor negativeFactors);
          recs =
            (if level = CRITICAL then
               [''CRITICAL: Executive escalation required''] @ recs
                 @ [''Consider retention offer or discount'']
             else if level = HIGH then
               [''HIGH PRIORITY: Immediate attention required''] @ recs
             else recs)
      in take 5 (uniq recs))"

definition scoreFactors :: "env \<Rightarrow> ScoringConfig \<Rightarrow> Contract \<Rightarrow> Invoice list \<Rightarrow> Subscription list \<Rightarrow> ScoreFactor list" where
  \<comment> \<open>the array \<open>factors\<close> after the five \<open>push\<close>es\<close>
  "scoreFactors e weights contract invoices subscriptions =
     [calculateInvoiceFactor e weights invoices,
      calculateUsageFactor e weights subscriptions,
      calculateValueFactor e weights contract,
      calculateRenewalProximityFactor e weights contract,
      calculatePaymentHistoryFactor e invoices]"

definition calculateHealthScore :: "env \<Rightarrow> ScoringConfig \<Rightarrow> Contract \<Rightarrow> Invoice list \<Rightarrow> Subscription list \<Rightarrow> RenewalHealthScore" where
  "calculateHealthScore e weights contract invoices subscriptions =
     (let fs = scoreFactors e weights contract invoices subscriptions;
          sc = calculateWeightedScore fs;
          level = determineRiskLevel weights sc;
          recs = generateRecommendations fs level
      in \<lparr> RenewalHealthScore.contractId = Contract.id contract,
           RenewalHealthScore.customerId = Contract.customerId contract,
           score = sc,
           riskLevel = level,
           factors = fs,
           recommendations = recs,
           calculatedAt = now e \<rparr>)"

section \<open>Underbilling detector (class UnderbillingDetector)\<close>

text \<open>
  The detector owns the array \<open>alerts\<close>; identifiers come from \<open>generateId\<close>. Every
  operation takes the array and the number of identifiers generated so far where it needs
  them, and returns them updated.
\<close>

definition calculateSeverity :: "jsnum \<Rightarrow> AlertSeverity" where
  "calculateSeverity amt =
     (if amt \<ge> Fin 10000 then SEV_HIGH
      else if amt \<ge> Fin 1000 then SEV_MEDIUM
      else SEV_LOW)"

definition isoDay :: "env \<Rightarrow> date \<Rightarrow> string" where
  \<comment> \<open>\<open>d.toISOString().split('T')[0]\<close>\<close>
  "isoDay e d = takeWhile (\<lambda>ch. ch \<noteq> CHR ''T'') (toISOString e d)"

fun collect :: "('a \<Rightarrow> nat \<Rightarrow> 'b option) \<Rightarrow> 'a list \<Rightarrow> nat \<Rightarrow> 'b list \<times> nat" where
  \<comment> \<open>a \<open>for\<close> loop whose body pushes at most one record, made with a fresh identifier\<close>
  "collect f [] n = ([], n)"
| "collect f (x # xs) n =
     (case f x n of
        None \<Rightarrow> collect f xs n
      | Some a \<Rightarrow> (let (as, n') = collect f xs (Suc n) in (a # as, n')))"

fun collectMany :: "('a \<Rightarrow> nat \<Rightarrow> 'b list \<times> nat) \<Rightarrow> 'a list \<Rightarrow> nat \<Rightarrow> 'b list \<times> nat" where
  \<comment> \<open>a \<open>for\<close> loop whose body pushes the records of an inner loop\<close>
  "collectMany f [] n = ([], n)"
| "collectMany f (x # xs) n =
     (let (as, n1) = f x n; (bs, n2) = collectMany f xs n1 in (as @ bs, n2))"

definition usageOverageAlert :: "env \<Rightarrow> Contract \<Rightarrow> Subscription \<Rightarrow> nat \<Rightarrow> UnderbillingAlert option" where
  \<comment> \<open>the body of the loop of \<open>detectUsageOverage\<close>\<close>
  "usageOverageAlert e contract subscription n =
     (if usageAmount subscription \<noteq> None \<and> usageLimit subscription \<noteq> None
         \<and> num_of (usageAmount subscription) > num_of (usageLimit subscription)
      then
        let overage = num_of (usageAmount subscription) - num_of (usageLimit subscription);
            estimatedOverageValue =
              overage * (Subscription.unitPrice subscription / Subscription.quantity subscription)
        in Some \<lparr> UnderbillingAlert.id = generateId e n,
                  UnderbillingAlert.contractId = Contract.id contract,
                  UnderbillingAlert.customerId = Contract.customerId contract,
                  type = USAGE_OVERAGE,
                  expectedAmount = estimatedOverageValue,
                  actualAmount = Fin 0,
                  difference = estimatedOverageValue,
                  period = isoDay e (Subscription.startDate subscription) @ '' to ''
                             @ isoDay e (Subscription.endDate subscription),
                  severity = calculateSeverity estimatedOverageValue,
                  detectedAt = now e,
                  resolved = False \<rparr>
      else None)"

definition detectUsageOverage :: "env \<Rightarrow> Contract \<Rightarrow> Subscription list \<Rightarrow> nat \<Rightarrow> UnderbillingAlert list \<times> nat" where
  "detectUsageOverage e contract subscriptions n =
     collect (usageOverageAlert e contract) subscriptions n"

definition expectedBilling :: "Contract \<Rightarrow> jsnum \<Rightarrow> (jsnum \<times> jsnum) option" where
  \<comment> \<open>the \<open>switch\<close> of \<open>detectMissingInvoices\<close>: \<open>(expectedInvoices, expectedPerPeriod)\<close>,
      or nothing where the \<open>default\<close> branch returns\<close>
  "expectedBilling contract contractDays =
     (case billingFrequency contract of
        MONTHLY \<Rightarrow> Some (js_floor (contractDays / Fin 30), totalValue contract / Fin 12)
      | QUARTERLY \<Rightarrow> Some (js_floor (contractDays / Fin 90), totalValue contract / Fin 4)
      | ANNUALLY \<Rightarrow> Some (js_floor (contractDays / Fin 365), totalValue contract)
      | ONE_TIME \<Rightarrow> None)"

definition detectMissingInvoices :: "env \<Rightarrow> Contract \<Rightarrow> Invoice list \<Rightarrow> nat \<Rightarrow> UnderbillingAlert list \<times> nat" where
  "detectMissingInvoices e contract invoices n =
     (let contractStart = Contract.startDate contract;
          contractDays = daysBetween e contractStart (now e)
      in case expectedBilling contract contractDays of
           None \<Rightarrow> ([], n)
         | Some (expectedInvoices, expectedPerPeriod) \<Rightarrow>
             let relevantInvoices =
                   filter (\<lambda>inv. Invoice.status inv \<noteq> VOID \<and> Invoice.status inv \<noteq> DRAFT) invoices
             in if of_length relevantInvoices < expectedInvoices \<and> expectedInvoices > Fin 0
                then
                  let missingCount = expectedInvoices - of_length relevantInvoices;
                      missingAmount = missingCount * expectedPerPeriod
                  in ([\<lparr> UnderbillingAlert.id = generateId e n,
                          UnderbillingAlert.contractId = Contract.id contract,
                          UnderbillingAlert.customerId = Contract.customerId contract,
                          type = MISSING_INVOICE,
                          expectedAmount = missingAmount,
                          actualAmount = Fin 0,
                          difference = missingAmount,
                          period = ''Since '' @ isoDay e contractStart,
                          severity = calculateSeverity missingAmount,
                          detectedAt = now e,
                          resolved = False \<rparr>], Suc n)
                else ([], n))"

definition rateMismatchAlert :: "env \<Rightarrow> Subscription \<Rightarrow> Invoice \<Rightarrow> nat \<Rightarrow> UnderbillingAlert option" where
  \<comment> \<open>the body of the inner loop of \<open>detectRateMismatches\<close>\<close>
  "rateMismatchAlert e subscription invoice n =
     (let expectedMinAmount = totalPrice subscription * Fin (9 / 10)
      in if Invoice.amount invoice < expectedMinAmount \<and> Invoice.status invoice \<noteq> VOID
         then
           let diff = totalPrice subscription - Invoice.amount invoice
           in if diff > Fin 100
              then Some \<lparr> UnderbillingAlert.id = generateId e n,
                          UnderbillingAlert.contractId = Subscription.contractId subscription,
                          UnderbillingAlert.customerId = Subscription.customerId subscription,
                          type = RATE_MISMATCH,
                          expectedAmount = totalPrice subscription,
                          actualAmount = Invoice.amount invoice,
                          difference = diff,
                          period = invoiceNumber invoice,
                          severity = calculateSeverity diff,
                          detectedAt = now e,
                          resolved = False \<rparr>
              else None
         else None)"

definition rateMismatchesOf :: "env \<Rightarrow> Invoice list \<Rightarrow> Subscription \<Rightarrow> nat \<Rightarrow> UnderbillingAlert list \<times> nat" where
  \<comment> \<open>the body of the outer loop of \<open>detectRateMismatches\<close>\<close>
  "rateMismatchesOf e invoices subscription n =
     (let relevantInvoices =
            filter (\<lambda>inv. Invoice.contractId inv = Subscription.contractId subscription
                          \<and> Invoice.createdAt inv \<ge> Subscription.startDate subscription) invoices
      in collect (rateMismatchAlert e subscription) relevantInvoices n)"

definition detectRateMismatches :: "env \<Rightarrow> Subscription list \<Rightarrow> Invoice list \<Rightarrow> nat \<Rightarrow> UnderbillingAlert list \<times> nat" where
  "detectRateMismatches e subscriptions invoices n =
     collectMany (rateMismatchesOf e invoices) subscriptions n"

definition groupStep :: "(string \<times> Subscription list) list \<Rightarrow> Subscription \<Rightarrow> (string \<times> Subscription list) list" where
  \<comment> \<open>\<open>existing = m.get(k) || []; existing.push(sub); m.set(k, existing)\<close> on a \<open>Map\<close>, whose
      keys keep the order of their first insertion\<close>
  "groupStep m sub =
     (let existing = (case map_of m (Subscription.contractId sub) of None \<Rightarrow> [] | Some xs \<Rightarrow> xs)
      in AList.update (Subscription.contractId sub) (existing @ [sub]) m)"

definition subsByContract :: "Subscription list \<Rightarrow> (string \<times> Subscription list) list" where
  "subsByContract subscriptions = foldl groupStep [] subscriptions"

definition quantityMismatchAlert :: "env \<Rightarrow> Invoice list \<Rightarrow> string \<times> Subscription list \<Rightarrow> nat \<Rightarrow> UnderbillingAlert option" where
  \<comment> \<open>the body of the loop over the entries of the \<open>Map\<close>; \<open>subs[0]\<close> is read only from an
      entry of \<open>subsByContract\<close>, which is never empty\<close>
  "quantityMismatchAlert e invoices entry n =
     (let cid = fst entry;
          subs = snd entry;
          expectedTotal = foldl (\<lambda>sum s. sum + totalPrice s) (Fin 0) subs;
          contractInvoices = filter (\<lambda>inv. Invoice.contractId inv = cid) invoices
      in case contractInvoices of
           [] \<Rightarrow> None
         | recentInvoice # _ \<Rightarrow>
             let tolerance = expectedTotal * Fin (5 / 100)
             in if js_abs (Invoice.amount recentInvoice - expectedTotal) > tolerance
                   \<and> Invoice.amount recentInvoice < expectedTotal
                then Some \<lparr> UnderbillingAlert.id = generateId e n,
                            UnderbillingAlert.contractId = cid,
                            UnderbillingAlert.customerId = Subscription.customerId (hd subs),
                            type = QUANTITY_MISMATCH,
                            expectedAmount = expectedTotal,
                            actualAmount = Invoice.amount recentInvoice,
                            difference = expectedTotal - Invoice.amount recentInvoice,
                            period = invoiceNumber recentInvoice,
                            severity = calculateSeverity (expectedTotal - Invoice.amount recentInvoice),
                            detectedAt = now e,
                            resolved = False \<rparr>
                else None)"

definition detectQuantityMismatches :: "env \<Rightarrow> Subscription list \<Rightarrow> Invoice list \<Rightarrow> nat \<Rightarrow> UnderbillingAlert list \<times> nat" where
  "detectQuantityMismatches e subscriptions invoices n =
     collect (quantityMismatchAlert e invoices) (subsByContract subscriptions) n"

definition detectUnderbilling :: "env \<Rightarrow> Contract \<Rightarrow> Invoice list \<Rightarrow> Subscription list \<Rightarrow> UnderbillingAlert list \<times> nat \<Rightarrow> UnderbillingAlert list \<times> (UnderbillingAlert list \<times> nat)" where
  \<comment> \<open>the alerts returned, and the array \<open>this.alerts\<close> with the identifier count after the call\<close>
  "detectUnderbilling e contract invoices subscriptions st =
     (let (usageAlerts, n1) = detectUsageOverage e contract subscriptions (snd st);
          (missingInvoiceAlerts, n2) = detectMissingInvoices e contract invoices n1;
          (rateAlerts, n3) = detectRateMismatches e subscriptions invoices n2;
          (quantityAlerts, n4) = detectQuantityMismatches e subscriptions invoices n3;
          alerts = usageAlerts @ missingInvoiceAlerts @ rateAlerts @ quantityAlerts
      in (alerts, (fst st @ alerts, n4)))"

definition getAlerts :: "UnderbillingAlert list \<Rightarrow> UnderbillingAlert list" where
  "getAlerts alerts = alerts"

definition getAlertsByCustomer :: "string \<Rightarrow> UnderbillingAlert list \<Rightarrow> UnderbillingAlert list" where
  "getAlertsByCustomer cust alerts = filter (\<lambda>alert. UnderbillingAlert.customerId alert = cust) alerts"

definition getAlertsByContract :: "string \<Rightarrow> UnderbillingAlert list \<Rightarrow> UnderbillingAlert list" where
  "getAlertsByContract cid alerts = filter (\<lambda>alert. UnderbillingAlert.contractId alert = cid) alerts"

definition getUnresolvedAlerts :: "UnderbillingAlert list \<Rightarrow> UnderbillingAlert list" where
  "getUnresolvedAlerts alerts = filter (\<lambda>alert. \<not> resolved alert) alerts"

fun resolveAlert :: "string \<Rightarrow> UnderbillingAlert list \<Rightarrow> bool \<times> UnderbillingAlert list" where
  \<comment> \<open>\<open>find\<close> returns the first alert with the identifier; its field is set in place\<close>
  "resolveAlert alertId [] = (False, [])"
| "resolveAlert alertId (a # as) =
     (if UnderbillingAlert.id a = alertId then (True, a\<lparr>resolved := True\<rparr> # as)
      else (let (found, as') = resolveAlert alertId as in (found, a # as')))"

definition clearAlerts :: "UnderbillingAlert list \<Rightarrow> UnderbillingAlert list" where
  "clearAlerts alerts = []"

section \<open>Renewal risk service (class RenewalRiskService)\<close>

record RiskThresholds =
  healthScoreChurnRisk :: jsnum
  healthScoreDowngradeRisk :: jsnum
  overdueInvoicesChurnRisk :: jsnum
  overdueAmountChurnRisk :: jsnum
  daysUntilRenewalUrgent :: jsnum
  daysUntilRenewalSoon :: jsnum

definition thresholds :: RiskThresholds where
  "thresholds =
     \<lparr> healthScoreChurnRisk = Fin 40,
       healthScoreDowngradeRisk = Fin 60,
       overdueInvoicesChurnRisk = Fin 3,
       overdueAmountChurnRisk = Fin 5000,
       daysUntilRenewalUrgent = Fin 30,
       daysUntilRenewalSoon = Fin 60 \<rparr>"

definition triggered :: "RiskIndicator list \<times> jsnum \<Rightarrow> RiskIndicator \<Rightarrow> jsnum \<Rightarrow> RiskIndicator list \<times> jsnum" where
  \<comment> \<open>\<open>indicators.push(ind); riskScore += points\<close> on \<open>(indicators, riskScore)\<close>\<close>
  "triggered acc ind points = (fst acc @ [ind], snd acc + points)"

definition emitRisk :: "env \<Rightarrow> Contract \<Rightarrow> RiskType \<Rightarrow> RiskIndicator list \<times> jsnum \<Rightarrow> nat \<Rightarrow> RenewalRisk option \<times> nat" where
  \<comment> \<open>the end of each of the four detectors: the risk, or \<open>null\<close>\<close>
  "emitRisk e contract rtype acc n =
     (if length (fst acc) \<ge> 2 then
        (Some \<lparr> RenewalRisk.id = generateId e n,
                RenewalRisk.contractId = Contract.id contract,
                RenewalRisk.customerId = Contract.customerId contract,
                riskType = rtype,
                riskScore = js_min (snd acc) (Fin 100),
                indicators = fst acc,
                flaggedAt = now e,
                RenewalRisk.status = NEW \<rparr>, Suc n)
      else (None, n))"

definition churnIndicators :: "RenewalHealthScore \<Rightarrow> Invoice list \<Rightarrow> RiskIndicator list \<times> jsnum" where
  \<comment> \<open>\<open>indicators\<close> and \<open>riskScore\<close> of \<open>detectChurnRisk\<close> before the final test\<close>
  "churnIndicators healthScore invoices =
     (let acc = ([], Fin 0);
          acc =
            (if score healthScore \<le> healthScoreChurnRisk thresholds then
               triggered acc
                 \<lparr> RiskIndicator.name = ''Low Health Score'',
                   RiskIndicator.value = Num (score healthScore),
                   threshold = Num (healthScoreChurnRisk thresholds),
                   exceeded = True \<rparr> (Fin 40)
             else acc);
          overdueInvoices = filter (\<lambda>inv. Invoice.status inv = OVERDUE) invoices;
          acc =
            (if of_length overdueInvoices \<ge> overdueInvoicesChurnRisk thresholds then
               triggered acc
                 \<lparr> RiskIndicator.name = ''Multiple Overdue Invoices'',
                   RiskIndicator.value = Num (of_length overdueInvoices),
                   threshold = Num (overdueInvoicesChurnRisk thresholds),
                   exceeded = True \<rparr> (Fin 30)
             else acc);
          totalOverdue = foldl (\<lambda>sum inv. sum + Invoice.amount inv) (Fin 0) overdueInvoices;
          acc =
            (if totalOverdue \<ge> overdueAmountChurnRisk thresholds then
               triggered acc
                 \<lparr> RiskIndicator.name = ''High Overdue Amount'',
                   RiskIndicator.value = Num totalOverdue,
                   threshold = Num (overdueAmountChurnRisk thresholds),
                   exceeded = True \<rparr> (Fin 30)
             else acc);
          acc =
            (if riskLevel healthScore = CRITICAL then
               triggered acc
                 \<lparr> RiskIndicator.name = ''Critical Risk Level'',
                   RiskIndicator.value = Str ''CRITICAL'',
                   threshold = Str ''HIGH or below'',
                   exceeded = True \<rparr> (Fin 20)
             else acc);
          negativeFactors = filter (\<lambda>f. impact f = negative) (factors healthScore);
          acc =
            (if length negativeFactors \<ge> 2 then
               triggered acc
                 \<lparr> RiskIndicator.name = ''Multiple Negative Factors'',
                   RiskIndicator.value = Num (of_length negativeFactors),
                   threshold = Num (Fin 2),
                   exceeded = True \<rparr> (Fin 10)
             else acc)
      in acc)"

definition detectChurnRisk :: "env \<Rightarrow> Contract \<Rightarrow> RenewalHealthScore \<Rightarrow> Invoice list \<Rightarrow> nat \<Rightarrow> RenewalRisk option \<times> nat" where
  "detectChurnRisk e contract healthScore invoices n =
     emitRisk e contract CHURN (churnIndicators healthScore invoices) n"

definition downgradeIndicators :: "Contract \<Rightarrow> RenewalHealthScore \<Rightarrow> RiskIndicator list \<times> jsnum" where
  "downgradeIndicators contract healthScore =
     (let acc = ([], Fin 0);
          acc =
            (if score healthScore > healthScoreChurnRisk thresholds
                \<and> score healthScore \<le> healthScoreDowngradeRisk thresholds then
               triggered acc
                 \<lparr> RiskIndicator.name = ''Moderate Health Score'',
                   RiskIndicator.value = Num (score healthScore),
                   threshold = Num (healthScoreDowngradeRisk thresholds),
                   exceeded = True \<rparr> (Fin 40)
             else acc);
          acc =
            (case find (\<lambda>f. ScoreFactor.name f = ''Usage Trend'') (factors healthScore) of
               None \<Rightarrow> acc
             | Some usageFactor \<Rightarrow>
                 if ScoreFactor.value usageFactor < Fin 50 then
                   triggered acc
                     \<lparr> RiskIndicator.name = ''Low Product Usage'',
                       RiskIndicator.value = Num (ScoreFactor.value usageFactor),
                       threshold = Num (Fin 50),
                       exceeded = True \<rparr> (Fin 35)
                 else acc);
          acc =
            (if totalValue contract > Fin 50000 then
               (case find (\<lambda>f. ScoreFactor.name f = ''Contract Value'') (factors healthScore) of
                  None \<Rightarrow> acc
                | Some valueFactor \<Rightarrow>
                    if impact valueFactor \<noteq> positive then
                      triggered acc
                        \<lparr> RiskIndicator.name = ''Large Contract Value at Risk'',
                          RiskIndicator.value = Num (totalValue contract),
                          threshold = Num (Fin 50000),
                          exceeded = True \<rparr> (Fin 25)
                    else acc)
             else acc)
      in acc)"

definition detectDowngradeRisk :: "env \<Rightarrow> Contract \<Rightarrow> RenewalHealthScore \<Rightarrow> nat \<Rightarrow> RenewalRisk option \<times> nat" where
  "detectDowngradeRisk e contract healthScore n =
     emitRisk e contract DOWNGRADE (downgradeIndicators contract healthScore) n"

definition lateRenewalIndicators :: "env \<Rightarrow> Contract \<Rightarrow> Invoice list \<Rightarrow> RiskIndicator list \<times> jsnum" where
  "lateRenewalIndicators e contract invoices =
     (let acc = ([], Fin 0);
          daysUntilRenewal = daysBetween e (now e) (renewalDate contract);
          acc =
            (if daysUntilRenewal \<le> daysUntilRenewalUrgent thresholds then
               triggered acc
                 \<lparr> RiskIndicator.name = ''Renewal Imminent'',
                   RiskIndicator.value = Num daysUntilRenewal,
                   threshold = Num (daysUntilRenewalUrgent thresholds),
                   exceeded = True \<rparr> (Fin 40)
             else if daysUntilRenewal \<le> daysUntilRenewalSoon thresholds then
               triggered acc
                 \<lparr> RiskIndicator.name = ''Renewal Approaching'',
                   RiskIndicator.value = Num daysUntilRenewal,
                   threshold = Num (daysUntilRenewalSoon thresholds),
                   exceeded = True \<rparr> (Fin 25)
             else acc);
          outstandingInvoices =
            filter (\<lambda>inv. Invoice.status inv \<noteq> PAID \<and> Invoice.status inv \<noteq> VOID) invoices;
          acc =
            (if length outstandingInvoices > 0 then
               triggered acc
                 \<lparr> RiskIndicator.name = ''Outstanding Invoices'',
                   RiskIndicator.value = Num (of_length outstandingInvoices),
                   threshold = Num (Fin 0),
                   exceeded = True \<rparr> (Fin 25)
             else acc);
          acc =
            (if \<not> autoRenewal contract \<and> isWithinDays e (renewalDate contract) (Fin 90) then
               triggered acc
                 \<lparr> RiskIndicator.name = ''Manual Renewal Required'',
                   RiskIndicator.value = Str ''No auto-renewal'',
                   threshold = Str ''Auto-renewal enabled'',
                   exceeded = True \<rparr> (Fin 20)
             else acc)
      in acc)"

definition detectLateRenewalRisk :: "env \<Rightarrow> Contract \<Rightarrow> Invoice list \<Rightarrow> nat \<Rightarrow> RenewalRisk option \<times> nat" where
  "detectLateRenewalRisk e contract invoices n =
     emitRisk e contract LATE_RENEWAL (lateRenewalIndicators e contract invoices) n"

definition lateCountStep :: "env \<Rightarrow> nat \<Rightarrow> Invoice \<Rightarrow> nat" where
  \<comment> \<open>the body of the loop of \<open>detectPriceSensitivityRisk\<close>, on \<open>lateCount\<close>\<close>
  "lateCountStep e lateCount invoice =
     (case paidDate invoice of
        None \<Rightarrow> lateCount
      | Some pd \<Rightarrow>
          if daysBetween e (dueDate invoice) pd > Fin 0 then lateCount + 1 else lateCount)"

definition priceSensitivityIndicators :: "env \<Rightarrow> Contract \<Rightarrow> Invoice list \<Rightarrow> RiskIndicator list \<times> jsnum" where
  "priceSensitivityIndicators e contract invoices =
     (let acc = ([], Fin 0);
          paidInvoices = filter (\<lambda>inv. Invoice.status inv = PAID) invoices;
          lateCount = foldl (lateCountStep e) 0 paidInvoices;
          latePaymentRatio =
            (if length paidInvoices > 0 then Fin (of_nat lateCount) / of_length paidInvoices
             else Fin 0);
          acc =
            (if latePaymentRatio > Fin (5 / 10) then
               triggered acc
                 \<lparr> RiskIndicator.name = ''Frequent Late Payments'',
                   RiskIndicator.value = Str (toFixed e (latePaymentRatio * Fin 100) 0 @ ''%''),
                   threshold = Str ''50%'',
                   exceeded = True \<rparr> (Fin 35)
             else acc);
          acc =
            (if totalValue contract > Fin 25000 \<and> latePaymentRatio > Fin (3 / 10) then
               triggered acc
                 \<lparr> RiskIndicator.name = ''Payment Pressure on Large Contract'',
                   RiskIndicator.value = Num (totalValue contract),
                   threshold = Num (Fin 25000),
                   exceeded = True \<rparr> (Fin 30)
             else acc);
          partialPayments = filter (\<lambda>inv. Invoice.status inv = PARTIAL) invoices;
          acc =
            (if length partialPayments > 0 then
               triggered acc
                 \<lparr> RiskIndicator.name = ''History of Partial Payments'',
                   RiskIndicator.value = Num (of_length partialPayments),
                   threshold = Num (Fin 0),
                   exceeded = True \<rparr> (Fin 25)
             else acc)
      in acc)"

definition detectPriceSensitivityRisk :: "env \<Rightarrow> Contract \<Rightarrow> Invoice list \<Rightarrow> nat \<Rightarrow> RenewalRisk option \<times> nat" where
  "detectPriceSensitivityRisk e contract invoices n =
     emitRisk e contract PRICE_SENSITIVITY (priceSensitivityIndicators e contract invoices) n"

definition pushRisk :: "RenewalRisk list \<Rightarrow> RenewalRisk option \<Rightarrow> RenewalRisk list" where
  \<comment> \<open>\<open>if (risk) { risks.push(risk); }\<close>\<close>
  "pushRisk rs r = (case r of None \<Rightarrow> rs | Some x \<Rightarrow> rs @ [x])"

definition analyzeRenewalRisks :: "env \<Rightarrow> Contract \<Rightarrow> RenewalHealthScore \<Rightarrow> Invoice list \<Rightarrow> RenewalRisk list \<times> nat \<Rightarrow> RenewalRisk list \<times> (RenewalRisk list \<times> nat)" where
  \<comment> \<open>the risks returned, and the array \<open>this.risks\<close> with the identifier count after the call\<close>
  "analyzeRenewalRisks e contract healthScore invoices st =
     (let (churnRisk, n1) = detectChurnRisk e contract healthScore invoices (snd st);
          rs = pushRisk [] churnRisk;
          (downgradeRisk, n2) = detectDowngradeRisk e contract healthScore n1;
          rs = pushRisk rs downgradeRisk;
          (lateRenewalRisk, n3) = detectLateRenewalRisk e contract invoices n2;
          rs = pushRisk rs lateRenewalRisk;
          (priceSensitivityRisk, n4) = detectPriceSensitivityRisk e contract invoices n3;
          rs = pushRisk rs priceSensitivityRisk
      in (rs, (fst st @ rs, n4)))"

definition getRisks :: "RenewalRisk list \<Rightarrow> RenewalRisk list" where
  "getRisks risks = risks"

definition getActiveRisks :: "RenewalRisk list \<Rightarrow> RenewalRisk list" where
  "getActiveRisks risks = filter (\<lambda>risk. RenewalRisk.status risk \<noteq> RESOLVED) risks"

fun updateRiskStatus :: "string \<Rightarrow> RiskStatus \<Rightarrow> RenewalRisk list \<Rightarrow> bool \<times> RenewalRisk list" where
  \<comment> \<open>\<open>find\<close> returns the first risk with the identifier; its field is set in place\<close>
  "updateRiskStatus riskId st [] = (False, [])"
| "updateRiskStatus riskId st (r # rs) =
     (if RenewalRisk.id r = riskId then (True, r\<lparr>RenewalRisk.status := st\<rparr> # rs)
      else (let (found, rs') = updateRiskStatus riskId st rs in (found, r # rs')))"

definition clearRisks :: "RenewalRisk list \<Rightarrow> RenewalRisk list" where
  "clearRisks risks = []"

section \<open>Notions used to state the properties\<close>

definition is_finite :: "jsnum \<Rightarrow> bool" where
  "is_finite x = (case x of Fin a \<Rightarrow> True | _ \<Rightarrow> False)"

definition fin_val :: "jsnum \<Rightarrow> rat" where
  \<comment> \<open>the rational of a finite number\<close>
  "fin_val x = (case x of Fin a \<Rightarrow> a | _ \<Rightarrow> 0)"

definition spec_weighted_mean :: "ScoreFactor list \<Rightarrow> rat" where
  \<comment> \<open>the aggregation as the specification words it: \<open>\<Sigma>(value\<times>weight) / \<Sigma>(weight)\<close>\<close>
  "spec_weighted_mean fs =
     (\<Sum>f\<leftarrow>fs. fin_val (ScoreFactor.value f) * fin_val (weight f))
       / (\<Sum>f\<leftarrow>fs. fin_val (weight f))"

definition late_total :: "jsnum \<Rightarrow> bool" where
  \<comment> \<open>what \<open>totalDaysLate\<close> can be: a sum of numbers greater than 0\<close>
  "late_total t = (t = PosInf \<or> (\<exists>r\<ge>0. t = Fin r))"


definition risk_ok :: "RenewalRisk \<Rightarrow> bool" where
  \<comment> \<open>at least two indicators, and a finite risk score between 0 and 100\<close>
  "risk_ok r =
     (length (indicators r) \<ge> 2 \<and> is_finite (riskScore r)
      \<and> Fin 0 \<le> riskScore r \<and> riskScore r \<le> Fin 100)"

datatype RiskOp =
    Analyze env Contract RenewalHealthScore "Invoice list"
  | UpdateStatus string RiskStatus
  | ClearRisks

fun applyRiskOp :: "RenewalRisk list \<times> nat \<Rightarrow> RiskOp \<Rightarrow> RenewalRisk list \<times> nat" where
  \<comment> \<open>one call of a method of the service that writes \<open>this.risks\<close>\<close>
  "applyRiskOp st (Analyze e contract healthScore invoices) =
     snd (analyzeRenewalRisks e contract healthScore invoices st)"
| "applyRiskOp st (UpdateStatus riskId s) = (snd (updateRiskStatus riskId s (fst st)), snd st)"
| "applyRiskOp st ClearRisks = (clearRisks (fst st), snd st)"

definition runRiskOps :: "RiskOp list \<Rightarrow> RenewalRisk list \<times> nat" where
  \<comment> \<open>the registry after a sequence of calls on a new service\<close>
  "runRiskOps ops = foldl applyRiskOp ([], 0) ops"

definition points :: "jsnum \<Rightarrow> bool" where
  \<comment> \<open>what \<open>riskScore\<close> can be before it is capped: a finite number, not negative\<close>
  "points x = (\<exists>v. x = Fin v \<and> 0 \<le> v)"

definition spec_usage_percentage :: "jsnum \<Rightarrow> jsnum \<Rightarrow> jsnum" where
  \<comment> \<open>the usage percentage as the specification words it: \<open>usageAmount/usageLimit\<times>100\<close>\<close>
  "spec_usage_percentage a l = (a / l) * Fin 100"

definition spec_avgUsage :: "Subscription list \<Rightarrow> jsnum" where
  \<comment> \<open>the average of the usage percentages of the subscriptions with usage data, as the
      specification words it\<close>
  "spec_avgUsage subscriptions =
     foldl (\<lambda>a b. a + b) (Fin 0)
       (map (\<lambda>sub. spec_usage_percentage (num_of (usageAmount sub)) (num_of (usageLimit sub)))
          (subsWithUsage subscriptions))
       / of_length (subsWithUsage subscriptions)"

definition usage_band :: "jsnum \<Rightarrow> jsnum \<times> Impact" where
  \<comment> \<open>the banding of the specification: value and impact for an average\<close>
  "usage_band avg =
     (if avg \<ge> Fin 70 then (Fin 100, positive)
      else if avg \<ge> Fin 40 then (Fin 70, neutral)
      else if avg \<ge> Fin 20 then (Fin 40, negative)
      else (Fin 20, negative))"

definition rounded_percentage :: "rat \<Rightarrow> rat \<Rightarrow> rat" where
  \<comment> \<open>the usage percentage of finite numbers as \<open>calculatePercentage\<close> returns it: rounded
      to the nearest whole number, halves up, and 0 for the limit 0\<close>
  "rounded_percentage a l = (if l = 0 then 0 else of_int (round (a / l * 100)))"

section \<open>Concrete inputs\<close>

text \<open>
  An environment and records at which the theorems below are applied. The environment
  counts whole days between two dates; the theorems themselves hold for every environment.
\<close>

definition env0 :: env where
  "env0 =
     \<lparr> now = 0,
       daysBetween = (\<lambda>d1 d2. Fin (of_int ((d2 - d1) div 86400000))),
       isWithinDays = (\<lambda>d days. 0 \<le> d \<and> Fin (of_int (d div 86400000)) \<le> days),
       generateId = (\<lambda>n. ''id-'' @ replicate n (CHR ''i'')),
       toISOString = (\<lambda>d. ''1970-01-01T00:00:00.000Z''),
       toFixed = (\<lambda>x digits. ''#''),
       toLocaleString = (\<lambda>x. ''#''),
       toString = (\<lambda>x. ''#'') \<rparr>"

definition contract0 :: Contract where
  "contract0 =
     \<lparr> Contract.id = ''contract-1'',
       Contract.customerId = ''customer-1'',
       customerName = ''Test Customer'',
       contractNumber = ''CTR-001'',
       Contract.startDate = - 31536000000,
       Contract.endDate = 31536000000,
       renewalDate = - 86400000,
       totalValue = Fin 500,
       Contract.currency = ''USD'',
       Contract.status = CS_ACTIVE,
       billingFrequency = ONE_TIME,
       autoRenewal = False,
       terms = ''Annual'',
       Contract.createdAt = - 31536000000,
       updatedAt = 0 \<rparr>"

definition overdueInvoice :: "string \<Rightarrow> Invoice" where
  "overdueInvoice i =
     \<lparr> Invoice.id = i,
       Invoice.contractId = ''contract-1'',
       invoiceNumber = ''INV-001'',
       Invoice.customerId = ''customer-1'',
       Invoice.amount = Fin 6000,
       Invoice.currency = ''USD'',
       dueDate = - 864000000,
       paidDate = None,
       Invoice.status = OVERDUE,
       lineItems = [],
       Invoice.createdAt = - 2592000000 \<rparr>"

definition invoices0 :: "Invoice list" where
  "invoices0 = [overdueInvoice ''invoice-1'', overdueInvoice ''invoice-2'', overdueInvoice ''invoice-3'']"

definition subscription0 :: Subscription where
  "subscription0 =
     \<lparr> Subscription.id = ''sub-1'',
       Subscription.contractId = ''contract-1'',
       Subscription.customerId = ''customer-1'',
       productId = ''product-1'',
       productName = ''Test Product'',
       Subscription.quantity = Fin 1,
       Subscription.unitPrice = Fin 20,
       totalPrice = Fin 20,
       usageAmount = Some (Fin 1500),
       usageLimit = Some (Fin 1000),
       Subscription.startDate = - 31536000000,
       Subscription.endDate = 31536000000,
       Subscription.status = SS_ACTIVE \<rparr>"

definition foreignSubscription :: Subscription where
  \<comment> \<open>a subscription of another contract than \<open>contract0\<close>\<close>
  "foreignSubscription =
     \<lparr> Subscription.id = ''sub-2'',
       Subscription.contractId = ''contract-2'',
       Subscription.customerId = ''customer-2'',
       productId = ''product-1'',
       productName = ''Test Product'',
       Subscription.quantity = Fin 10,
       Subscription.unitPrice = Fin 500,
       totalPrice = Fin 5000,
       usageAmount = None,
       usageLimit = None,
       Subscription.startDate = - 31536000000,
       Subscription.endDate = 31536000000,
       Subscription.status = SS_ACTIVE \<rparr>"

definition foreignInvoice :: Invoice where
  "foreignInvoice =
     \<lparr> Invoice.id = ''invoice-9'',
       Invoice.contractId = ''contract-2'',
       invoiceNumber = ''INV-009'',
       Invoice.customerId = ''customer-2'',
       Invoice.amount = Fin 1000,
       Invoice.currency = ''USD'',
       dueDate = 0,
       paidDate = None,
       Invoice.status = SENT,
       lineItems = [],
       Invoice.createdAt = - 2592000000 \<rparr>"

definition usageSubscription :: "rat \<Rightarrow> rat \<Rightarrow> Subscription" where
  "usageSubscription a l = subscription0\<lparr>usageAmount := Some (Fin a), usageLimit := Some (Fin l)\<rparr>"

definition subscriptions7 :: "Subscription list" where
  \<comment> \<open>usage of 70.4, 70.4 and 69.4 percent\<close>
  "subscriptions7 =
     [usageSubscription 704 1000, usageSubscription 704 1000, usageSubscription 694 1000]"

definition zeroLimitSubscription :: Subscription where
  "zeroLimitSubscription = usageSubscription 50 0"

definition healthScore0 :: RenewalHealthScore where
  "healthScore0 = calculateHealthScore env0 config_scoring contract0 invoices0 []"

section \<open>Properties of the scoring engine\<close>

subsection \<open>Arithmetic of finite numbers\<close>

lemma minus_Fin [simp]: "Fin a - Fin b = Fin (a - b)"
  by (simp add: minus_jsnum_def)

lemma js_min_Fin [simp]: "js_min (Fin a) (Fin b) = Fin (min a b)"
  by (simp add: js_min_def min_def)

lemma js_max_Fin [simp]: "js_max (Fin a) (Fin b) = Fin (max a b)"
  by (simp add: js_max_def max_def)

lemma clamp_Fin: "clamp (Fin x) (Fin lo) (Fin hi) = Fin (min (max x lo) hi)"
  by (simp add: clamp_def)

lemma clamp_range:
  assumes "x \<noteq> NaN"
  shows "\<exists>v. clamp x (Fin 0) (Fin 100) = Fin v \<and> 0 \<le> v \<and> v \<le> 100"
  using assms by (cases x) (simp_all add: clamp_def js_min_def js_max_def)

lemma invoice_factor_value:
  "\<exists>v. ScoreFactor.value (calculateInvoiceFactor e w ivs) = Fin v \<and> 0 \<le> v \<and> v \<le> 100"
proof (cases "length ivs = 0")
  case True
  then show ?thesis by (simp add: calculateInvoiceFactor_def)
next
  case False
  then show ?thesis
    by (simp add: calculateInvoiceFactor_def Let_def of_length_def clamp_Fin)
qed

lemma usage_factor_value:
  "ScoreFactor.value (calculateUsageFactor e w subs) \<in> Fin ` {100, 75, 70, 40, 20}"
  by (simp add: calculateUsageFactor_def Let_def)

lemma value_factor_value:
  "ScoreFactor.value (calculateValueFactor e w c) \<in> Fin ` {100, 85, 70, 50, 30}"
  by (simp add: calculateValueFactor_def Let_def)

lemma proximity_factor_value:
  "ScoreFactor.value (calculateRenewalProximityFactor e w c) \<in> Fin ` {20, 30, 40, 50, 60, 70, 80, 90, 100}"
  by (simp add: calculateRenewalProximityFactor_def Let_def)


lemma lateStep_total: "late_total (fst acc) \<Longrightarrow> late_total (fst (lateStep e acc iv))"
proof (cases "paidDate iv")
  case None
  assume "late_total (fst acc)"
  with None show ?thesis by (simp add: lateStep_def)
next
  case (Some pd)
  assume a: "late_total (fst acc)"
  show ?thesis
  proof (cases "daysBetween e (dueDate iv) pd")
    case (Fin d)
    with a Some show ?thesis
      by (auto simp: lateStep_def late_total_def Let_def)
  next
    case PosInf
    with a Some show ?thesis
      by (auto simp: lateStep_def late_total_def Let_def)
  next
    case NegInf
    with a Some show ?thesis by (simp add: lateStep_def)
  next
    case NaN
    with a Some show ?thesis by (simp add: lateStep_def)
  qed
qed

lemma foldl_lateStep_total:
  "late_total (fst acc) \<Longrightarrow> late_total (fst (foldl (lateStep e) acc xs))"
  by (induction xs arbitrary: acc) (simp_all add: lateStep_total)

lemma payment_factor_value:
  "\<exists>v. ScoreFactor.value (calculatePaymentHistoryFactor e ivs) = Fin v \<and> 0 \<le> v \<and> v \<le> 100"
proof (cases "length (paidWithDate ivs) = 0")
  case True
  then show ?thesis by (simp add: calculatePaymentHistoryFactor_def)
next
  case False
  obtain t l where tl: "foldl (lateStep e) (Fin 0, 0) (paidWithDate ivs) = (t, l)"
    by (cases "foldl (lateStep e) (Fin 0, 0) (paidWithDate ivs)")
  have "late_total (fst (foldl (lateStep e) (Fin 0, 0) (paidWithDate ivs)))"
    by (rule foldl_lateStep_total) (simp add: late_total_def)
  with tl have t: "late_total t" by simp
  define avg where "avg = (if l > 0 then t / Fin (of_nat l) else Fin 0)"
  have avg: "late_total avg"
    using t by (auto simp: avg_def late_total_def)
  define ratio where "ratio = (of_length (paidWithDate ivs) - Fin (of_nat l)) / of_length (paidWithDate ivs)"
  from False obtain q where q: "ratio = Fin q"
    by (simp add: ratio_def of_length_def)
  have "(ratio * Fin 100) - (avg * Fin 2) \<noteq> NaN"
    using avg q by (auto simp: late_total_def minus_jsnum_def)
  from clamp_range [OF this] obtain v
    where v: "clamp ((ratio * Fin 100) - (avg * Fin 2)) (Fin 0) (Fin 100) = Fin v" "0 \<le> v" "v \<le> 100"
    by blast
  have "ScoreFactor.value (calculatePaymentHistoryFactor e ivs)
          = clamp ((ratio * Fin 100) - (avg * Fin 2)) (Fin 0) (Fin 100)"
    using False tl by (simp add: calculatePaymentHistoryFactor_def Let_def avg_def ratio_def)
  with v show ?thesis by simp
qed


lemma is_finite_Fin [simp]: "is_finite (Fin a)"
  by (simp add: is_finite_def)

lemma is_finite_iff: "is_finite x \<longleftrightarrow> (\<exists>a. x = Fin a)"
  by (cases x) (simp_all add: is_finite_def)

lemma fin_val_Fin [simp]: "fin_val (Fin a) = a"
  by (simp add: fin_val_def)

lemma foldl_weightedSum:
  assumes "\<forall>f\<in>set fs. is_finite (ScoreFactor.value f) \<and> is_finite (weight f)"
  shows "foldl (\<lambda>acc factor. acc + ScoreFactor.value factor * weight factor) (Fin a) fs
           = Fin (a + (\<Sum>f\<leftarrow>fs. fin_val (ScoreFactor.value f) * fin_val (weight f)))"
  using assms
proof (induction fs arbitrary: a)
  case Nil
  show ?case by simp
next
  case (Cons f fs)
  from Cons.prems obtain v w where "ScoreFactor.value f = Fin v" "weight f = Fin w"
    by (auto simp: is_finite_iff)
  with Cons show ?case by (simp add: add.assoc)
qed

lemma foldl_totalWeight:
  assumes "\<forall>f\<in>set fs. is_finite (weight f)"
  shows "foldl (\<lambda>acc factor. acc + weight factor) (Fin a) fs
           = Fin (a + (\<Sum>f\<leftarrow>fs. fin_val (weight f)))"
  using assms
proof (induction fs arbitrary: a)
  case Nil
  show ?case by simp
next
  case (Cons f fs)
  from Cons.prems obtain w where "weight f = Fin w"
    by (auto simp: is_finite_iff)
  with Cons show ?case by (simp add: add.assoc)
qed

lemma round_clamp:
  fixes m :: rat
  shows "round (min (max m 0) 100) = min (max (round m) 0) 100"
proof -
  consider "m < 0" | "0 \<le> m" "m \<le> 100" | "100 < m" by linarith
  then show ?thesis
  proof cases
    case 1
    then have "round m \<le> round (0::rat)" by (intro round_mono) simp
    with 1 show ?thesis by (simp add: max_def min_def)
  next
    case 2
    then have "round (0::rat) \<le> round m" "round m \<le> round (100::rat)"
      by (intro round_mono; simp)+
    with 2 show ?thesis by (simp add: max_def min_def)
  next
    case 3
    then have "round (100::rat) \<le> round m" by (intro round_mono) simp
    with 3 show ?thesis by (simp add: max_def min_def)
  qed
qed

lemma calculateWeightedScore_mean:
  assumes fin: "\<forall>f\<in>set fs. is_finite (ScoreFactor.value f) \<and> is_finite (weight f)"
    and pos: "0 < (\<Sum>f\<leftarrow>fs. fin_val (weight f))"
  shows "calculateWeightedScore fs
           = Fin (of_int (round (min (max (spec_weighted_mean fs) 0) 100)))"
proof -
  have ws: "weightedSum fs = Fin (\<Sum>f\<leftarrow>fs. fin_val (ScoreFactor.value f) * fin_val (weight f))"
    using foldl_weightedSum [OF fin, of 0] by (simp add: weightedSum_def)
  have tw: "totalWeight fs = Fin (\<Sum>f\<leftarrow>fs. fin_val (weight f))"
    using foldl_totalWeight [of fs 0] fin by (simp add: totalWeight_def)
  show ?thesis
    using pos
    by (simp add: calculateWeightedScore_def ws tw spec_weighted_mean_def clamp_Fin round_def)
qed



lemma invoice_factor_weight:
  "weight (calculateInvoiceFactor e w ivs) = invoiceOverdueWeight w"
  by (simp add: calculateInvoiceFactor_def Let_def)

lemma usage_factor_weight:
  "weight (calculateUsageFactor e w subs) = usageDeclineWeight w"
  by (simp add: calculateUsageFactor_def Let_def)

lemma value_factor_weight:
  "weight (calculateValueFactor e w c) = contractValueWeight w"
  by (simp add: calculateValueFactor_def Let_def)

lemma proximity_factor_weight:
  "weight (calculateRenewalProximityFactor e w c) = renewalProximityWeight w"
  by (simp add: calculateRenewalProximityFactor_def Let_def)

lemma payment_factor_weight:
  "weight (calculatePaymentHistoryFactor e ivs) = Fin (10 / 100)"
  by (simp add: calculatePaymentHistoryFactor_def Let_def split: prod.splits)

lemma scoreFactors_finite:
  "\<forall>f\<in>set (scoreFactors e config_scoring c ivs subs).
     \<exists>v. ScoreFactor.value f = Fin v \<and> 0 \<le> v \<and> v \<le> 100"
  using invoice_factor_value [of e config_scoring ivs]
    usage_factor_value [of e config_scoring subs]
    value_factor_value [of e config_scoring c]
    proximity_factor_value [of e config_scoring c]
    payment_factor_value [of e ivs]
  by (auto simp: scoreFactors_def)

lemma scoreFactors_weights:
  "map weight (scoreFactors e config_scoring c ivs subs)
     = [Fin (25 / 100), Fin (20 / 100), Fin (15 / 100), Fin (25 / 100), Fin (10 / 100)]"
  by (simp add: scoreFactors_def invoice_factor_weight usage_factor_weight value_factor_weight
      proximity_factor_weight payment_factor_weight config_scoring_def)



lemmas fixture_defs = env0_def contract0_def invoices0_def overdueInvoice_def subscription0_def config_scoring_def

lemmas scoring_defs = calculateHealthScore_def scoreFactors_def calculateInvoiceFactor_def
  calculateUsageFactor_def calculateValueFactor_def calculateRenewalProximityFactor_def
  calculatePaymentHistoryFactor_def paidWithDate_def calculateWeightedScore_def weightedSum_def
  totalWeight_def determineRiskLevel_def of_length_def clamp_def impact_of_score_def

lemma hs0_score: "score (calculateHealthScore env0 config_scoring contract0 invoices0 []) = Fin 39"
  by (simp add: scoring_defs fixture_defs Let_def floor_eq_iff)

lemma hs0_level: "riskLevel (calculateHealthScore env0 config_scoring contract0 invoices0 []) = CRITICAL"
  by (simp add: scoring_defs fixture_defs Let_def floor_eq_iff)

lemma hs0_impacts: "map impact (factors (calculateHealthScore env0 config_scoring contract0 invoices0 []))
   = [negative, neutral, negative, negative, neutral]"
  by (simp add: scoring_defs fixture_defs Let_def)


subsection \<open>Auto-renewal\<close>

lemma value_factor_autoRenewal:
  "calculateValueFactor e w (c\<lparr>autoRenewal := b\<rparr>) = calculateValueFactor e w c"
  by (simp add: calculateValueFactor_def)

lemma proximity_autoRenewal_value:
  "ScoreFactor.value (calculateRenewalProximityFactor e w (c\<lparr>autoRenewal := True\<rparr>))
     = js_min (ScoreFactor.value (calculateRenewalProximityFactor e w (c\<lparr>autoRenewal := False\<rparr>)) + Fin 10) (Fin 100)"
  by (simp add: calculateRenewalProximityFactor_def Let_def)

lemma proximity_autoRenewal_impact:
  "impact (calculateRenewalProximityFactor e w (c\<lparr>autoRenewal := True\<rparr>))
     = impact (calculateRenewalProximityFactor e w (c\<lparr>autoRenewal := False\<rparr>))"
  by (simp add: calculateRenewalProximityFactor_def Let_def)

lemma spec_weighted_mean_shipped:
  assumes "map weight fs = [Fin (25 / 100), Fin (20 / 100), Fin (15 / 100), Fin (25 / 100), Fin (10 / 100)]"
    and "map ScoreFactor.value fs = [Fin v1, Fin v2, Fin v3, Fin v4, Fin v5]"
  shows "spec_weighted_mean fs
           = (v1 * (25 / 100) + v2 * (20 / 100) + v3 * (15 / 100) + v4 * (25 / 100) + v5 * (10 / 100)) / (19 / 20)"
proof -
  have "(\<Sum>f\<leftarrow>fs. fin_val (weight f)) = sum_list (map fin_val (map weight fs))"
    by (simp add: comp_def)
  then have w: "(\<Sum>f\<leftarrow>fs. fin_val (weight f)) = 19 / 20"
    unfolding assms(1) by simp
  from assms obtain f1 f2 f3 f4 f5 where fs: "fs = [f1, f2, f3, f4, f5]"
    by (auto simp: map_eq_Cons_conv)
  with assms have v: "(\<Sum>f\<leftarrow>fs. fin_val (ScoreFactor.value f) * fin_val (weight f))
      = v1 * (25 / 100) + v2 * (20 / 100) + v3 * (15 / 100) + v4 * (25 / 100) + v5 * (10 / 100)"
    by simp
  show ?thesis unfolding spec_weighted_mean_def w v by (rule refl)
qed

lemma shipped_factors_finite:
  "\<forall>f\<in>set (scoreFactors e config_scoring c ivs subs).
     is_finite (ScoreFactor.value f) \<and> is_finite (weight f)"
proof
  fix f assume f: "f \<in> set (scoreFactors e config_scoring c ivs subs)"
  then have "weight f \<in> set (map weight (scoreFactors e config_scoring c ivs subs))" by simp
  then have "is_finite (weight f)" unfolding scoreFactors_weights by auto
  moreover from f scoreFactors_finite [of e c ivs subs] have "is_finite (ScoreFactor.value f)"
    unfolding is_finite_iff by blast
  ultimately show "is_finite (ScoreFactor.value f) \<and> is_finite (weight f)" by simp
qed

lemma shipped_total_weight:
  "(\<Sum>f\<leftarrow>scoreFactors e config_scoring c ivs subs. fin_val (weight f)) = 19 / 20"
proof -
  have "(\<Sum>f\<leftarrow>scoreFactors e config_scoring c ivs subs. fin_val (weight f))
          = sum_list (map fin_val (map weight (scoreFactors e config_scoring c ivs subs)))"
    by (simp add: comp_def)
  also have "\<dots> = 19 / 20" unfolding scoreFactors_weights by simp
  finally show ?thesis .
qed

lemma shipped_score:
  "score (calculateHealthScore e config_scoring c ivs subs)
     = Fin (of_int (min (max (round (spec_weighted_mean (scoreFactors e config_scoring c ivs subs))) 0) 100))"
proof -
  have "0 < (\<Sum>f\<leftarrow>scoreFactors e config_scoring c ivs subs. fin_val (weight f))"
    by (simp add: shipped_total_weight)
  from calculateWeightedScore_mean [OF shipped_factors_finite this] show ?thesis
    by (simp add: calculateHealthScore_def Let_def round_clamp)
qed

text \<open>
  Claim C6. For two contracts that differ only in \<open>autoRenewal\<close>, scored in the same
  environment with the same invoices and subscriptions, the score with \<open>autoRenewal\<close> set is
  at least the score without it: the proximity factor gains 10, capped at 100, so its value
  does not decrease; its impact is unchanged; and the contract value factor, the only other
  factor that reads the contract, is the same.
\<close>

theorem C6_autoRenewal_does_not_lower_score:
  "score (calculateHealthScore e config_scoring (c\<lparr>autoRenewal := False\<rparr>) ivs subs)
     \<le> score (calculateHealthScore e config_scoring (c\<lparr>autoRenewal := True\<rparr>) ivs subs)
   \<and> ScoreFactor.value (calculateRenewalProximityFactor e config_scoring (c\<lparr>autoRenewal := True\<rparr>))
       = js_min (ScoreFactor.value (calculateRenewalProximityFactor e config_scoring (c\<lparr>autoRenewal := False\<rparr>)) + Fin 10) (Fin 100)
   \<and> ScoreFactor.value (calculateRenewalProximityFactor e config_scoring (c\<lparr>autoRenewal := False\<rparr>))
       \<le> ScoreFactor.value (calculateRenewalProximityFactor e config_scoring (c\<lparr>autoRenewal := True\<rparr>))
   \<and> impact (calculateRenewalProximityFactor e config_scoring (c\<lparr>autoRenewal := True\<rparr>))
       = impact (calculateRenewalProximityFactor e config_scoring (c\<lparr>autoRenewal := False\<rparr>))
   \<and> calculateValueFactor e config_scoring (c\<lparr>autoRenewal := True\<rparr>)
       = calculateValueFactor e config_scoring (c\<lparr>autoRenewal := False\<rparr>)"
proof -
  let ?cf = "c\<lparr>autoRenewal := False\<rparr>" and ?ct = "c\<lparr>autoRenewal := True\<rparr>"
  let ?ff = "scoreFactors e config_scoring ?cf ivs subs"
  let ?ft = "scoreFactors e config_scoring ?ct ivs subs"
  obtain v1 where v1: "ScoreFactor.value (calculateInvoiceFactor e config_scoring ivs) = Fin v1"
    using invoice_factor_value by blast
  obtain v2 where v2: "ScoreFactor.value (calculateUsageFactor e config_scoring subs) = Fin v2"
    using usage_factor_value [of e config_scoring subs] by auto
  obtain v3 where v3: "ScoreFactor.value (calculateValueFactor e config_scoring c) = Fin v3"
    using value_factor_value [of e config_scoring c] by auto
  obtain v4 where v4: "ScoreFactor.value (calculateRenewalProximityFactor e config_scoring ?cf) = Fin v4"
    using proximity_factor_value [of e config_scoring ?cf] by auto
  obtain v5 where v5: "ScoreFactor.value (calculatePaymentHistoryFactor e ivs) = Fin v5"
    using payment_factor_value by blast
  have v4': "ScoreFactor.value (calculateRenewalProximityFactor e config_scoring ?ct) = Fin (min (v4 + 10) 100)"
    by (simp add: proximity_autoRenewal_value v4)
  have valf: "map ScoreFactor.value ?ff = [Fin v1, Fin v2, Fin v3, Fin v4, Fin v5]"
    by (simp add: scoreFactors_def v1 v2 v3 v4 v5 value_factor_autoRenewal)
  have valt: "map ScoreFactor.value ?ft = [Fin v1, Fin v2, Fin v3, Fin (min (v4 + 10) 100), Fin v5]"
    by (simp add: scoreFactors_def v1 v2 v3 v4' v5 value_factor_autoRenewal)
  have meanf: "spec_weighted_mean ?ff
      = (v1 * (25 / 100) + v2 * (20 / 100) + v3 * (15 / 100) + v4 * (25 / 100) + v5 * (10 / 100)) / (19 / 20)"
    by (rule spec_weighted_mean_shipped [OF scoreFactors_weights valf])
  have meant: "spec_weighted_mean ?ft
      = (v1 * (25 / 100) + v2 * (20 / 100) + v3 * (15 / 100) + min (v4 + 10) 100 * (25 / 100) + v5 * (10 / 100)) / (19 / 20)"
    by (rule spec_weighted_mean_shipped [OF scoreFactors_weights valt])
  have "v4 \<le> min (v4 + 10) 100"
    using proximity_factor_value [of e config_scoring ?cf] v4 by auto
  then have mean_le: "spec_weighted_mean ?ff \<le> spec_weighted_mean ?ft"
    unfolding meanf meant by (simp add: divide_right_mono)
  have "round (spec_weighted_mean ?ff) \<le> round (spec_weighted_mean ?ft)"
    by (rule round_mono) (rule mean_le)
  then have "score (calculateHealthScore e config_scoring ?cf ivs subs)
      \<le> score (calculateHealthScore e config_scoring ?ct ivs subs)"
    unfolding shipped_score by simp
  moreover have "ScoreFactor.value (calculateRenewalProximityFactor e config_scoring ?cf)
       \<le> ScoreFactor.value (calculateRenewalProximityFactor e config_scoring ?ct)"
    unfolding v4 v4' using \<open>v4 \<le> min (v4 + 10) 100\<close> by simp
  ultimately show ?thesis
    using proximity_autoRenewal_value [of e config_scoring c]
      proximity_autoRenewal_impact [of e config_scoring c]
    by (simp add: value_factor_autoRenewal)
qed

section \<open>Properties of the renewal risk service\<close>

lemma emitRisk_None:
  "length (fst acc) < 2 \<Longrightarrow> emitRisk e c t acc n = (None, n)"
  by (simp add: emitRisk_def)

lemma emitRisk_Some:
  assumes "fst (emitRisk e c t acc n) = Some r"
  shows "2 \<le> length (fst acc) \<and> indicators r = fst acc \<and> riskType r = t
       \<and> riskScore r = js_min (snd acc) (Fin 100) \<and> flaggedAt r = now e
       \<and> RenewalRisk.status r = NEW \<and> RenewalRisk.id r = generateId e n
       \<and> RenewalRisk.contractId r = Contract.id c \<and> RenewalRisk.customerId r = Contract.customerId c"
  using assms by (auto simp: emitRisk_def split: if_splits)

lemma points_0 [simp]: "points (Fin 0)"
  by (simp add: points_def)

lemma points_triggered [simp]: "points (snd acc) \<Longrightarrow> 0 \<le> k \<Longrightarrow> points (snd (triggered acc ind (Fin k)))"
  by (auto simp: points_def triggered_def)

lemma churn_points: "points (snd (churnIndicators hs ivs))"
  by (simp add: churnIndicators_def Let_def)

lemma downgrade_points: "points (snd (downgradeIndicators c hs))"
  by (simp add: downgradeIndicators_def Let_def split: option.splits)

lemma lateRenewal_points: "points (snd (lateRenewalIndicators e c ivs))"
  by (simp add: lateRenewalIndicators_def Let_def)

lemma priceSensitivity_points: "points (snd (priceSensitivityIndicators e c ivs))"
  by (simp add: priceSensitivityIndicators_def Let_def)

lemma emitRisk_ok:
  assumes "fst (emitRisk e c t acc n) = Some r" and "points (snd acc)"
  shows "risk_ok r"
proof -
  from assms(2) obtain v where v: "snd acc = Fin v" "0 \<le> v" by (auto simp: points_def)
  from emitRisk_Some [OF assms(1)] v show ?thesis
    by (simp add: risk_ok_def)
qed


lemma emitRisk_type:
  "fst (emitRisk e c t acc n) = Some r \<Longrightarrow> riskType r = t"
  by (simp add: emitRisk_Some)

lemma analyze_returned:
  "fst (analyzeRenewalRisks e c hs ivs st)
     = (let (r1, n1) = detectChurnRisk e c hs ivs (snd st);
            (r2, n2) = detectDowngradeRisk e c hs n1;
            (r3, n3) = detectLateRenewalRisk e c ivs n2;
            (r4, n4) = detectPriceSensitivityRisk e c ivs n3
        in List.map_filter (\<lambda>x. x) [r1, r2, r3, r4])"
  by (simp add: analyzeRenewalRisks_def Let_def pushRisk_def List.map_filter_def
      split: prod.splits option.splits)


lemma set_map_filter_Some:
  "set (List.map_filter (\<lambda>x. x) xs) = {r. Some r \<in> set xs}"
  by (induction xs) (auto simp: List.map_filter_def)

lemma analyze_mem:
  assumes "r \<in> set (fst (analyzeRenewalRisks e c hs ivs st))"
  shows "(\<exists>n. fst (emitRisk e c CHURN (churnIndicators hs ivs) n) = Some r)
       \<or> (\<exists>n. fst (emitRisk e c DOWNGRADE (downgradeIndicators c hs) n) = Some r)
       \<or> (\<exists>n. fst (emitRisk e c LATE_RENEWAL (lateRenewalIndicators e c ivs) n) = Some r)
       \<or> (\<exists>n. fst (emitRisk e c PRICE_SENSITIVITY (priceSensitivityIndicators e c ivs) n) = Some r)"
proof -
  obtain r1 n1 where d1: "detectChurnRisk e c hs ivs (snd st) = (r1, n1)"
    by (cases "detectChurnRisk e c hs ivs (snd st)")
  obtain r2 n2 where d2: "detectDowngradeRisk e c hs n1 = (r2, n2)"
    by (cases "detectDowngradeRisk e c hs n1")
  obtain r3 n3 where d3: "detectLateRenewalRisk e c ivs n2 = (r3, n3)"
    by (cases "detectLateRenewalRisk e c ivs n2")
  obtain r4 n4 where d4: "detectPriceSensitivityRisk e c ivs n3 = (r4, n4)"
    by (cases "detectPriceSensitivityRisk e c ivs n3")
  from assms have "r \<in> set (List.map_filter (\<lambda>x. x) [r1, r2, r3, r4])"
    by (simp add: analyze_returned d1 d2 d3 d4)
  then have "Some r \<in> set [r1, r2, r3, r4]"
    unfolding set_map_filter_Some by simp
  then have "Some r \<in> {r1, r2, r3, r4}" by simp
  moreover have "fst (emitRisk e c CHURN (churnIndicators hs ivs) (snd st)) = r1"
    using d1 by (simp add: detectChurnRisk_def)
  moreover have "fst (emitRisk e c DOWNGRADE (downgradeIndicators c hs) n1) = r2"
    using d2 by (simp add: detectDowngradeRisk_def)
  moreover have "fst (emitRisk e c LATE_RENEWAL (lateRenewalIndicators e c ivs) n2) = r3"
    using d3 by (simp add: detectLateRenewalRisk_def)
  moreover have "fst (emitRisk e c PRICE_SENSITIVITY (priceSensitivityIndicators e c ivs) n3) = r4"
    using d4 by (simp add: detectPriceSensitivityRisk_def)
  ultimately show ?thesis by auto
qed

lemma analyze_returned_ok:
  assumes "r \<in> set (fst (analyzeRenewalRisks e c hs ivs st))"
  shows "risk_ok r \<and> flaggedAt r = now e \<and> RenewalRisk.status r = NEW"
  using analyze_mem [OF assms]
  by (auto dest: emitRisk_Some
      intro: emitRisk_ok churn_points downgrade_points lateRenewal_points priceSensitivity_points)

lemma analyze_registry:
  "fst (snd (analyzeRenewalRisks e c hs ivs st)) = fst st @ fst (analyzeRenewalRisks e c hs ivs st)"
  by (simp add: analyzeRenewalRisks_def Let_def split: prod.splits)

lemma risk_ok_status [simp]: "risk_ok (r\<lparr>RenewalRisk.status := s\<rparr>) = risk_ok r"
  by (simp add: risk_ok_def)

lemma updateRiskStatus_ok:
  "\<forall>r\<in>set rs. risk_ok r \<Longrightarrow> \<forall>r\<in>set (snd (updateRiskStatus i s rs)). risk_ok r"
  by (induction rs) (auto split: prod.splits)

lemma applyRiskOp_ok:
  assumes "\<forall>r\<in>set (fst st). risk_ok r"
  shows "\<forall>r\<in>set (fst (applyRiskOp st op)). risk_ok r"
proof (cases op)
  case (Analyze e c hs ivs)
  with assms show ?thesis
    by (auto simp: analyze_registry dest: analyze_returned_ok)
next
  case (UpdateStatus i s)
  with assms show ?thesis by (simp add: updateRiskStatus_ok)
next
  case ClearRisks
  then show ?thesis by (simp add: clearRisks_def)
qed

lemma runRiskOps_ok: "\<forall>r\<in>set (fst (runRiskOps ops)). risk_ok r"
proof (induction ops rule: rev_induct)
  case Nil
  show ?case by (simp add: runRiskOps_def)
next
  case (snoc op ops)
  have "runRiskOps (ops @ [op]) = applyRiskOp (runRiskOps ops) op"
    by (simp add: runRiskOps_def)
  with snoc show ?case by (simp add: applyRiskOp_ok)
qed

lemma analyze_gate:
  assumes "r \<in> set (fst (analyzeRenewalRisks e c hs ivs st))"
  shows "(riskType r = CHURN \<longrightarrow> 2 \<le> length (fst (churnIndicators hs ivs)))
       \<and> (riskType r = DOWNGRADE \<longrightarrow> 2 \<le> length (fst (downgradeIndicators c hs)))
       \<and> (riskType r = LATE_RENEWAL \<longrightarrow> 2 \<le> length (fst (lateRenewalIndicators e c ivs)))
       \<and> (riskType r = PRICE_SENSITIVITY \<longrightarrow> 2 \<le> length (fst (priceSensitivityIndicators e c ivs)))"
  using analyze_mem [OF assms] by (auto dest: emitRisk_Some)

text \<open>
  Claim C5. Every risk returned by \<open>analyzeRenewalRisks\<close> has at least two indicators, a
  risk score between 0 and 100, \<open>flaggedAt\<close> equal to the time of the call and the status
  \<open>new\<close>; the returned risks are appended to the registry, and every risk in the registry
  after any sequence of calls on a new service has at least two indicators and a risk score
  between 0 and 100; a detector whose indicator list has fewer than two entries contributes
  no risk of its type to the call.
\<close>

theorem C5_risks_need_two_indicators:
  "(\<forall>r\<in>set (fst (analyzeRenewalRisks e c hs ivs st)).
       2 \<le> length (indicators r) \<and> is_finite (riskScore r)
       \<and> Fin 0 \<le> riskScore r \<and> riskScore r \<le> Fin 100
       \<and> flaggedAt r = now e \<and> RenewalRisk.status r = NEW)
   \<and> fst (snd (analyzeRenewalRisks e c hs ivs st))
       = fst st @ fst (analyzeRenewalRisks e c hs ivs st)
   \<and> (\<forall>ops. \<forall>r\<in>set (fst (runRiskOps ops)). risk_ok r)
   \<and> (length (fst (churnIndicators hs ivs)) < 2 \<longrightarrow>
        (\<forall>r\<in>set (fst (analyzeRenewalRisks e c hs ivs st)). riskType r \<noteq> CHURN))
   \<and> (length (fst (downgradeIndicators c hs)) < 2 \<longrightarrow>
        (\<forall>r\<in>set (fst (analyzeRenewalRisks e c hs ivs st)). riskType r \<noteq> DOWNGRADE))
   \<and> (length (fst (lateRenewalIndicators e c ivs)) < 2 \<longrightarrow>
        (\<forall>r\<in>set (fst (analyzeRenewalRisks e c hs ivs st)). riskType r \<noteq> LATE_RENEWAL))
   \<and> (length (fst (priceSensitivityIndicators e c ivs)) < 2 \<longrightarrow>
        (\<forall>r\<in>set (fst (analyzeRenewalRisks e c hs ivs st)). riskType r \<noteq> PRICE_SENSITIVITY))"
proof -
  have a: "\<forall>r\<in>set (fst (analyzeRenewalRisks e c hs ivs st)).
       2 \<le> length (indicators r) \<and> is_finite (riskScore r)
       \<and> Fin 0 \<le> riskScore r \<and> riskScore r \<le> Fin 100
       \<and> flaggedAt r = now e \<and> RenewalRisk.status r = NEW"
    using analyze_returned_ok [of _ e c hs ivs st] by (simp add: risk_ok_def)
  have g: "\<And>r. r \<in> set (fst (analyzeRenewalRisks e c hs ivs st)) \<Longrightarrow>
       (riskType r = CHURN \<longrightarrow> 2 \<le> length (fst (churnIndicators hs ivs)))
       \<and> (riskType r = DOWNGRADE \<longrightarrow> 2 \<le> length (fst (downgradeIndicators c hs)))
       \<and> (riskType r = LATE_RENEWAL \<longrightarrow> 2 \<le> length (fst (lateRenewalIndicators e c ivs)))
       \<and> (riskType r = PRICE_SENSITIVITY \<longrightarrow> 2 \<le> length (fst (priceSensitivityIndicators e c ivs)))"
    by (rule analyze_gate)
  have g1: "length (fst (churnIndicators hs ivs)) < 2 \<longrightarrow>
        (\<forall>r\<in>set (fst (analyzeRenewalRisks e c hs ivs st)). riskType r \<noteq> CHURN)"
    using g by fastforce
  have g2: "length (fst (downgradeIndicators c hs)) < 2 \<longrightarrow>
        (\<forall>r\<in>set (fst (analyzeRenewalRisks e c hs ivs st)). riskType r \<noteq> DOWNGRADE)"
    using g by fastforce
  have g3: "length (fst (lateRenewalIndicators e c ivs)) < 2 \<longrightarrow>
        (\<forall>r\<in>set (fst (analyzeRenewalRisks e c hs ivs st)). riskType r \<noteq> LATE_RENEWAL)"
    using g by fastforce
  have g4: "length (fst (priceSensitivityIndicators e c ivs)) < 2 \<longrightarrow>
        (\<forall>r\<in>set (fst (analyzeRenewalRisks e c hs ivs st)). riskType r \<noteq> PRICE_SENSITIVITY)"
    using g by fastforce
  from a analyze_registry [of e c hs ivs st] runRiskOps_ok g1 g2 g3 g4 show ?thesis
    by blast
qed


lemma healthScore0_fields:
  "score healthScore0 = Fin 39 \<and> riskLevel healthScore0 = CRITICAL
   \<and> factors healthScore0 =
      [\<lparr>ScoreFactor.name = ''Invoice Status'', weight = Fin (1 / 4),
          ScoreFactor.value = Fin 0, impact = negative,
          ScoreFactor.description = ''# overdue invoice(s) totaling $#''\<rparr>,
       \<lparr>ScoreFactor.name = ''Usage Trend'', weight = Fin (1 / 5),
          ScoreFactor.value = Fin 100, impact = neutral,
          ScoreFactor.description = ''No subscriptions to evaluate''\<rparr>,
       \<lparr>ScoreFactor.name = ''Contract Value'', weight = Fin (3 / 20),
          ScoreFactor.value = Fin 30, impact = negative,
          ScoreFactor.description = ''Micro contract: $#''\<rparr>,
       \<lparr>ScoreFactor.name = ''Renewal Proximity'', weight = Fin (1 / 4),
          ScoreFactor.value = Fin 20, impact = negative,
          ScoreFactor.description = ''Contract has passed renewal date!''\<rparr>,
       \<lparr>ScoreFactor.name = ''Payment History'', weight = Fin (1 / 10),
          ScoreFactor.value = Fin 75, impact = neutral,
          ScoreFactor.description = ''No payment history available''\<rparr>]"
  by (simp add: healthScore0_def scoring_defs fixture_defs Let_def floor_eq_iff)

lemmas risk_defs = analyzeRenewalRisks_def detectChurnRisk_def detectDowngradeRisk_def
  detectLateRenewalRisk_def detectPriceSensitivityRisk_def churnIndicators_def
  downgradeIndicators_def lateRenewalIndicators_def priceSensitivityIndicators_def
  emitRisk_def triggered_def pushRisk_def thresholds_def lateCountStep_def of_length_def

lemma analyze0_types:
  "map riskType (fst (analyzeRenewalRisks env0 contract0 healthScore0 invoices0 ([], 0)))
     = [CHURN, LATE_RENEWAL]"
  by (simp add: risk_defs healthScore0_fields fixture_defs Let_def)

lemma downgrade0_indicators:
  "length (fst (downgradeIndicators contract0 healthScore0)) = 0"
  by (simp add: risk_defs healthScore0_fields fixture_defs Let_def)


theorem C5_witness:
  "(\<exists>r. r \<in> set (fst (analyzeRenewalRisks env0 contract0 healthScore0 invoices0 ([], 0)))
        \<and> 2 \<le> length (indicators r) \<and> riskScore r \<le> Fin 100
        \<and> RenewalRisk.status r = NEW \<and> riskType r \<noteq> DOWNGRADE)
   \<and> length (fst (downgradeIndicators contract0 healthScore0)) < 2"
proof -
  note t = C5_risks_need_two_indicators [of env0 contract0 healthScore0 invoices0 "([], 0)"]
  from analyze0_types
  have "fst (analyzeRenewalRisks env0 contract0 healthScore0 invoices0 ([], 0)) \<noteq> []"
    by auto
  then obtain r where
    r: "r \<in> set (fst (analyzeRenewalRisks env0 contract0 healthScore0 invoices0 ([], 0)))"
    using hd_in_set by blast
  have lt: "length (fst (downgradeIndicators contract0 healthScore0)) < 2"
    by (simp add: downgrade0_indicators)
  from t lt r have "riskType r \<noteq> DOWNGRADE"
    by blast
  moreover from t r have "2 \<le> length (indicators r) \<and> riskScore r \<le> Fin 100
      \<and> RenewalRisk.status r = NEW"
    by blast
  ultimately show ?thesis using r lt by blast
qed

subsection \<open>Churn\<close>

lemma critical_score:
  assumes "hs = calculateHealthScore e config_scoring c ivs subs"
    and "riskLevel hs = CRITICAL"
  shows "score hs \<le> Fin 40"
proof -
  obtain m :: int where m: "score hs = Fin (of_int m)"
    using shipped_score [of e c ivs subs] assms(1) by blast
  have "riskLevel hs = determineRiskLevel config_scoring (score hs)"
    by (simp add: assms(1) calculateHealthScore_def Let_def)
  with assms(2) m show ?thesis
    by (simp add: determineRiskLevel_def config_scoring_def split: if_splits)
qed

lemma churn_critical:
  assumes "score hs \<le> Fin 40" and "riskLevel hs = CRITICAL"
    and "2 \<le> length (filter (\<lambda>f. impact f = negative) (factors hs))"
    and "3 \<le> length (filter (\<lambda>i. Invoice.status i = OVERDUE) ivs)"
  shows "2 \<le> length (fst (churnIndicators hs ivs))
       \<and> js_min (snd (churnIndicators hs ivs)) (Fin 100) = Fin 100"
  using assms
  by (simp add: churnIndicators_def Let_def triggered_def thresholds_def of_length_def)

lemma emitRisk_type_pair:
  "emitRisk e c t acc n = (Some r, n') \<Longrightarrow> riskType r = t"
  using emitRisk_type [of e c t acc n r] by simp

lemma analyze_churn_filter:
  "filter (\<lambda>r. riskType r = CHURN) (fst (analyzeRenewalRisks e c hs ivs st))
     = (case fst (detectChurnRisk e c hs ivs (snd st)) of None \<Rightarrow> [] | Some r \<Rightarrow> [r])"
proof -
  obtain r1 n1 where d1: "detectChurnRisk e c hs ivs (snd st) = (r1, n1)"
    by (cases "detectChurnRisk e c hs ivs (snd st)")
  obtain r2 n2 where d2: "detectDowngradeRisk e c hs n1 = (r2, n2)"
    by (cases "detectDowngradeRisk e c hs n1")
  obtain r3 n3 where d3: "detectLateRenewalRisk e c ivs n2 = (r3, n3)"
    by (cases "detectLateRenewalRisk e c ivs n2")
  obtain r4 n4 where d4: "detectPriceSensitivityRisk e c ivs n3 = (r4, n4)"
    by (cases "detectPriceSensitivityRisk e c ivs n3")
  have t1: "\<And>r. r1 = Some r \<Longrightarrow> riskType r = CHURN"
    using d1 by (auto dest: emitRisk_type_pair simp: detectChurnRisk_def)
  have t2: "\<And>r. r2 = Some r \<Longrightarrow> riskType r = DOWNGRADE"
    using d2 by (auto dest: emitRisk_type_pair simp: detectDowngradeRisk_def)
  have t3: "\<And>r. r3 = Some r \<Longrightarrow> riskType r = LATE_RENEWAL"
    using d3 by (auto dest: emitRisk_type_pair simp: detectLateRenewalRisk_def)
  have t4: "\<And>r. r4 = Some r \<Longrightarrow> riskType r = PRICE_SENSITIVITY"
    using d4 by (auto dest: emitRisk_type_pair simp: detectPriceSensitivityRisk_def)
  show ?thesis
    using t1 t2 t3 t4
    by (cases r1; cases r2; cases r3; cases r4)
      (simp_all add: analyze_returned d1 d2 d3 d4 List.map_filter_def)
qed

lemma jsnum_less_imp_le: "(x::jsnum) < y \<Longrightarrow> x \<le> y"
  by (cases x; cases y) simp_all

text \<open>
  Claim C2. When the health score passed to \<open>analyzeRenewalRisks\<close> has the risk level
  critical and its score is below the critical threshold, as it is for every critical health
  score that the scoring engine computed, and it has at least two factors of negative impact,
  and the invoice list has at least three overdue invoices, the call returns exactly one risk
  of type churn, and the risk score of that risk is at least 70 (it is 100).
\<close>

theorem C2_overdue_and_critical_gives_churn:
  assumes "riskLevel hs = CRITICAL"
    and "(\<exists>e' c' ivs' subs'. hs = calculateHealthScore e' config_scoring c' ivs' subs')
         \<or> score hs < criticalThreshold config_scoring"
    and "2 \<le> length (filter (\<lambda>f. impact f = negative) (factors hs))"
    and "3 \<le> length (filter (\<lambda>i. Invoice.status i = OVERDUE) ivs)"
  shows "\<exists>r. filter (\<lambda>r. riskType r = CHURN) (fst (analyzeRenewalRisks e c hs ivs st)) = [r]
           \<and> Fin 70 \<le> riskScore r \<and> riskScore r = Fin 100"
proof -
  from assms(2) have "score hs \<le> Fin 40"
  proof
    assume "\<exists>e' c' ivs' subs'. hs = calculateHealthScore e' config_scoring c' ivs' subs'"
    then obtain e' c' ivs' subs' where "hs = calculateHealthScore e' config_scoring c' ivs' subs'"
      by blast
    from critical_score [OF this assms(1)] show ?thesis .
  next
    assume "score hs < criticalThreshold config_scoring"
    then have "score hs < Fin 40" by (simp add: config_scoring_def)
    then show ?thesis by (rule jsnum_less_imp_le)
  qed
  from churn_critical [OF this assms(1,3,4)]
  have ind: "2 \<le> length (fst (churnIndicators hs ivs))"
    and sc: "js_min (snd (churnIndicators hs ivs)) (Fin 100) = Fin 100"
    by simp_all
  from ind obtain r where r: "fst (detectChurnRisk e c hs ivs (snd st)) = Some r"
    by (simp add: detectChurnRisk_def emitRisk_def)
  then have "riskScore r = Fin 100"
    using emitRisk_Some [of e c CHURN "churnIndicators hs ivs" "snd st" r] sc
    by (simp add: detectChurnRisk_def)
  with r show ?thesis by (simp add: analyze_churn_filter)
qed

theorem C2_witness:
  "riskLevel healthScore0 = CRITICAL
   \<and> 2 \<le> length (filter (\<lambda>f. impact f = negative) (factors healthScore0))
   \<and> 3 \<le> length (filter (\<lambda>i. Invoice.status i = OVERDUE) invoices0)
   \<and> (\<exists>r. filter (\<lambda>r. riskType r = CHURN)
              (fst (analyzeRenewalRisks env0 contract0 healthScore0 invoices0 ([], 0))) = [r]
           \<and> Fin 70 \<le> riskScore r)"
proof -
  have "healthScore0 = calculateHealthScore env0 config_scoring contract0 invoices0 []"
    by (simp add: healthScore0_def)
  then have h1: "(\<exists>e' c' ivs' subs'. healthScore0 = calculateHealthScore e' config_scoring c' ivs' subs')
         \<or> score healthScore0 < criticalThreshold config_scoring"
    by blast
  have h2: "riskLevel healthScore0 = CRITICAL"
    by (simp add: healthScore0_fields)
  have h3: "2 \<le> length (filter (\<lambda>f. impact f = negative) (factors healthScore0))"
    by (simp add: healthScore0_fields)
  have h4: "3 \<le> length (filter (\<lambda>i. Invoice.status i = OVERDUE) invoices0)"
    by (simp add: invoices0_def overdueInvoice_def)
  from C2_overdue_and_critical_gives_churn [OF h2 h1 h3 h4, of env0 contract0 "([], 0)"] h2 h3 h4
  show ?thesis by blast
qed

section \<open>Properties of the underbilling detector\<close>

subsection \<open>Loops\<close>

lemma fst_collect_Cons:
  "fst (collect f (x # xs) n)
     = (case f x n of None \<Rightarrow> fst (collect f xs n) | Some a \<Rightarrow> a # fst (collect f xs (Suc n)))"
  by (simp split: option.splits prod.splits)

lemma fst_collectMany_Cons:
  "fst (collectMany f (x # xs) n) = fst (f x n) @ fst (collectMany f xs (snd (f x n)))"
  by (simp split: prod.splits)

lemma collect_set:
  "a \<in> set (fst (collect f xs n)) \<Longrightarrow> \<exists>x\<in>set xs. \<exists>k. f x k = Some a"
proof (induction xs arbitrary: n)
  case Nil
  then show ?case by simp
next
  case (Cons x xs)
  show ?case
  proof (cases "f x n")
    case None
    with Cons.prems have "a \<in> set (fst (collect f xs n))"
      by (simp only: fst_collect_Cons option.case)
    from Cons.IH [OF this] show ?thesis by auto
  next
    case (Some b)
    with Cons.prems have "a = b \<or> a \<in> set (fst (collect f xs (Suc n)))"
      by (simp only: fst_collect_Cons option.case set_simps insert_iff)
    then show ?thesis
    proof
      assume "a = b"
      with Some show ?thesis by auto
    next
      assume "a \<in> set (fst (collect f xs (Suc n)))"
      from Cons.IH [OF this] show ?thesis by auto
    qed
  qed
qed


lemma collectMany_set:
  "a \<in> set (fst (collectMany f xs n)) \<Longrightarrow> \<exists>x\<in>set xs. \<exists>k. a \<in> set (fst (f x k))"
proof (induction xs arbitrary: n)
  case Nil
  then show ?case by simp
next
  case (Cons x xs)
  from Cons.prems have "a \<in> set (fst (f x n)) \<or> a \<in> set (fst (collectMany f xs (snd (f x n))))"
    by (simp only: fst_collectMany_Cons set_append Un_iff)
  then show ?case
  proof
    assume "a \<in> set (fst (f x n))"
    then show ?thesis by auto
  next
    assume "a \<in> set (fst (collectMany f xs (snd (f x n))))"
    from Cons.IH [OF this] show ?thesis by auto
  qed
qed

subsection \<open>The four rules\<close>

lemma detectUnderbilling_parts:
  "\<exists>n1 n2 n3.
     fst (detectUnderbilling e c ivs subs st)
       = fst (detectUsageOverage e c subs (snd st)) @ fst (detectMissingInvoices e c ivs n1)
           @ fst (detectRateMismatches e subs ivs n2) @ fst (detectQuantityMismatches e subs ivs n3)"
proof -
  have "fst (detectUnderbilling e c ivs subs st)
       = fst (detectUsageOverage e c subs (snd st))
           @ fst (detectMissingInvoices e c ivs (snd (detectUsageOverage e c subs (snd st))))
           @ fst (detectRateMismatches e subs ivs
                (snd (detectMissingInvoices e c ivs (snd (detectUsageOverage e c subs (snd st))))))
           @ fst (detectQuantityMismatches e subs ivs
                (snd (detectRateMismatches e subs ivs
                  (snd (detectMissingInvoices e c ivs (snd (detectUsageOverage e c subs (snd st))))))))"
    by (simp add: detectUnderbilling_def Let_def case_prod_beta)
  then show ?thesis by blast
qed

lemma detectUnderbilling_registry:
  "fst (snd (detectUnderbilling e c ivs subs st)) = fst st @ fst (detectUnderbilling e c ivs subs st)"
  by (simp add: detectUnderbilling_def Let_def split: prod.splits)

lemma usage_alert:
  assumes "a \<in> set (fst (detectUsageOverage e c subs n))"
  shows "type a = USAGE_OVERAGE \<and> UnderbillingAlert.contractId a = Contract.id c
       \<and> UnderbillingAlert.customerId a = Contract.customerId c"
proof -
  from collect_set [of a "usageOverageAlert e c" subs n] assms
  obtain s k where "usageOverageAlert e c s k = Some a"
    by (auto simp: detectUsageOverage_def)
  then show ?thesis
    by (auto simp: usageOverageAlert_def Let_def split: if_splits)
qed

lemma missing_alert:
  assumes "a \<in> set (fst (detectMissingInvoices e c ivs n))"
  shows "type a = MISSING_INVOICE \<and> UnderbillingAlert.contractId a = Contract.id c
       \<and> UnderbillingAlert.customerId a = Contract.customerId c
       \<and> billingFrequency c \<noteq> ONE_TIME"
  using assms
  by (auto simp: detectMissingInvoices_def expectedBilling_def Let_def
      split: option.splits if_splits BillingFrequency.splits)

lemma rate_alert:
  assumes "a \<in> set (fst (detectRateMismatches e subs ivs n))"
  shows "type a = RATE_MISMATCH
       \<and> (\<exists>s\<in>set subs. UnderbillingAlert.contractId a = Subscription.contractId s
              \<and> UnderbillingAlert.customerId a = Subscription.customerId s)"
proof -
  from collectMany_set [of a "rateMismatchesOf e ivs" subs n] assms
  obtain s k where s: "s \<in> set subs" and "a \<in> set (fst (rateMismatchesOf e ivs s k))"
    by (auto simp: detectRateMismatches_def)
  then obtain i j where "rateMismatchAlert e s i j = Some a"
    by (auto simp: rateMismatchesOf_def Let_def dest: collect_set)
  then have "type a = RATE_MISMATCH \<and> UnderbillingAlert.contractId a = Subscription.contractId s
              \<and> UnderbillingAlert.customerId a = Subscription.customerId s"
    by (auto simp: rateMismatchAlert_def Let_def split: if_splits)
  with s show ?thesis by blast
qed


subsection \<open>Grouping by contract\<close>

lemma groupStep_grouped:
  assumes "distinct (map fst m)"
    and "\<forall>cid. map_of m cid =
           (if \<exists>s\<in>set xs. Subscription.contractId s = cid
            then Some (filter (\<lambda>s. Subscription.contractId s = cid) xs) else None)"
  shows "distinct (map fst (groupStep m x))
       \<and> (\<forall>cid. map_of (groupStep m x) cid =
           (if \<exists>s\<in>set (xs @ [x]). Subscription.contractId s = cid
            then Some (filter (\<lambda>s. Subscription.contractId s = cid) (xs @ [x])) else None))"
proof
  show "distinct (map fst (groupStep m x))"
    using assms(1) by (simp add: groupStep_def Let_def AList.distinct_update)
  show "\<forall>cid. map_of (groupStep m x) cid =
           (if \<exists>s\<in>set (xs @ [x]). Subscription.contractId s = cid
            then Some (filter (\<lambda>s. Subscription.contractId s = cid) (xs @ [x])) else None)"
  proof
    fix cid
    show "map_of (groupStep m x) cid =
           (if \<exists>s\<in>set (xs @ [x]). Subscription.contractId s = cid
            then Some (filter (\<lambda>s. Subscription.contractId s = cid) (xs @ [x])) else None)"
    proof (cases "cid = Subscription.contractId x")
      case True
      have "filter (\<lambda>s. Subscription.contractId s = cid) xs = []"
        if "\<not> (\<exists>s\<in>set xs. Subscription.contractId s = cid)"
        using that by (simp add: filter_empty_conv)
      with True assms(2) show ?thesis
        by (auto simp: groupStep_def Let_def AList.update_conv')
    next
      case False
      with assms(2) show ?thesis
        by (auto simp: groupStep_def Let_def AList.update_conv')
    qed
  qed
qed

lemma subsByContract_grouped:
  "distinct (map fst (subsByContract subs))
   \<and> (\<forall>cid. map_of (subsByContract subs) cid =
         (if \<exists>s\<in>set subs. Subscription.contractId s = cid
          then Some (filter (\<lambda>s. Subscription.contractId s = cid) subs) else None))"
proof (induction subs rule: rev_induct)
  case Nil
  show ?case by (simp add: subsByContract_def)
next
  case (snoc x xs)
  have "subsByContract (xs @ [x]) = groupStep (subsByContract xs) x"
    by (simp add: subsByContract_def)
  with groupStep_grouped [of "subsByContract xs" xs x] snoc show ?case by simp
qed

lemma subsByContract_entry:
  assumes "entry \<in> set (subsByContract subs)"
  shows "snd entry = filter (\<lambda>s. Subscription.contractId s = fst entry) subs \<and> snd entry \<noteq> []"
proof -
  from subsByContract_grouped [of subs]
  have d: "distinct (map fst (subsByContract subs))"
    and m: "map_of (subsByContract subs) (fst entry) =
         (if \<exists>s\<in>set subs. Subscription.contractId s = fst entry
          then Some (filter (\<lambda>s. Subscription.contractId s = fst entry) subs) else None)"
    by blast+
  from assms have "(fst entry, snd entry) \<in> set (subsByContract subs)" by simp
  with d have "map_of (subsByContract subs) (fst entry) = Some (snd entry)"
    by (rule map_of_is_SomeI)
  with m
  have ex: "\<exists>s\<in>set subs. Subscription.contractId s = fst entry"
    and eq: "snd entry = filter (\<lambda>s. Subscription.contractId s = fst entry) subs"
    by (auto split: if_splits)
  from ex have "filter (\<lambda>s. Subscription.contractId s = fst entry) subs \<noteq> []"
    by (simp add: filter_empty_conv)
  with eq show ?thesis by simp
qed

lemma find_hd_filter:
  "filter P xs \<noteq> [] \<Longrightarrow> find P xs = Some (hd (filter P xs))"
  by (induction xs) auto

lemma quantity_alert:
  assumes "a \<in> set (fst (detectQuantityMismatches e subs ivs n))"
  shows "type a = QUANTITY_MISMATCH
       \<and> (\<exists>s. find (\<lambda>s. Subscription.contractId s = UnderbillingAlert.contractId a) subs = Some s
              \<and> UnderbillingAlert.customerId a = Subscription.customerId s)"
proof -
  from collect_set [of a "quantityMismatchAlert e ivs" "subsByContract subs" n] assms
  obtain entry k where entry: "entry \<in> set (subsByContract subs)"
    and a: "quantityMismatchAlert e ivs entry k = Some a"
    by (auto simp: detectQuantityMismatches_def)
  from a have ty: "type a = QUANTITY_MISMATCH" and cid: "UnderbillingAlert.contractId a = fst entry"
    and cust: "UnderbillingAlert.customerId a = Subscription.customerId (hd (snd entry))"
    by (auto simp: quantityMismatchAlert_def Let_def split: list.splits if_splits)
  from subsByContract_entry [OF entry]
  have g: "snd entry = filter (\<lambda>s. Subscription.contractId s = fst entry) subs"
    and ne: "snd entry \<noteq> []" by blast+
  from ne have "filter (\<lambda>s. Subscription.contractId s = fst entry) subs \<noteq> []"
    unfolding g .
  from find_hd_filter [OF this]
  have "find (\<lambda>s. Subscription.contractId s = fst entry) subs = Some (hd (snd entry))"
    unfolding g .
  with ty cid cust show ?thesis by simp
qed


subsection \<open>Alerts of the four types\<close>

lemma detectUnderbilling_mem:
  assumes "a \<in> set (fst (detectUnderbilling e c ivs subs st))"
  shows "(\<exists>n. a \<in> set (fst (detectUsageOverage e c subs n)))
       \<or> (\<exists>n. a \<in> set (fst (detectMissingInvoices e c ivs n)))
       \<or> (\<exists>n. a \<in> set (fst (detectRateMismatches e subs ivs n)))
       \<or> (\<exists>n. a \<in> set (fst (detectQuantityMismatches e subs ivs n)))"
proof -
  from detectUnderbilling_parts [of e c ivs subs st] obtain n1 n2 n3 where
    "fst (detectUnderbilling e c ivs subs st)
       = fst (detectUsageOverage e c subs (snd st)) @ fst (detectMissingInvoices e c ivs n1)
           @ fst (detectRateMismatches e subs ivs n2) @ fst (detectQuantityMismatches e subs ivs n3)"
    by blast
  with assms show ?thesis by auto
qed

lemma missing_one_time:
  "billingFrequency c = ONE_TIME \<Longrightarrow> detectMissingInvoices e c ivs n = ([], n)"
  by (simp add: detectMissingInvoices_def expectedBilling_def)

lemmas underbilling_defs = detectUnderbilling_def detectUsageOverage_def usageOverageAlert_def
  detectMissingInvoices_def expectedBilling_def detectRateMismatches_def rateMismatchesOf_def
  rateMismatchAlert_def detectQuantityMismatches_def quantityMismatchAlert_def subsByContract_def
  groupStep_def calculateSeverity_def isoDay_def of_length_def num_of_def minus_jsnum_def

lemma detect0_types:
  "map type (fst (detectUnderbilling env0 contract0 [] [subscription0] ([], 0))) = [USAGE_OVERAGE]"
  by (simp add: underbilling_defs fixture_defs Let_def)

lemma monthly_contract_missing_invoice:
  "map type (fst (detectUnderbilling env0 (contract0\<lparr>billingFrequency := MONTHLY\<rparr>) [] [] ([], 0)))
     = [MISSING_INVOICE]"
  by (simp add: underbilling_defs fixture_defs Let_def floor_eq_iff)

text \<open>
  Claim C4. For a contract billed \<open>one_time\<close> the missing-invoice rule returns at once with
  no alert and no identifier used, whatever the invoice list, and no alert returned by
  \<open>detectUnderbilling\<close> has the type \<open>missing_invoice\<close>.
\<close>

theorem C4_one_time_never_missing_invoice:
  assumes "billingFrequency c = ONE_TIME"
  shows "detectMissingInvoices e c ivs n = ([], n)
       \<and> (\<forall>a\<in>set (fst (detectUnderbilling e c ivs subs st)). type a \<noteq> MISSING_INVOICE)"
proof
  show "detectMissingInvoices e c ivs n = ([], n)"
    using assms by (rule missing_one_time)
  show "\<forall>a\<in>set (fst (detectUnderbilling e c ivs subs st)). type a \<noteq> MISSING_INVOICE"
  proof
    fix a assume "a \<in> set (fst (detectUnderbilling e c ivs subs st))"
    from detectUnderbilling_mem [OF this] assms show "type a \<noteq> MISSING_INVOICE"
      by (auto dest: usage_alert missing_alert rate_alert quantity_alert)
  qed
qed

theorem C4_witness:
  "billingFrequency contract0 = ONE_TIME
   \<and> detectMissingInvoices env0 contract0 [] 0 = ([], 0)
   \<and> (\<exists>a. a \<in> set (fst (detectUnderbilling env0 contract0 [] [subscription0] ([], 0)))
          \<and> type a \<noteq> MISSING_INVOICE)"
proof -
  have h: "billingFrequency contract0 = ONE_TIME" by (simp add: contract0_def)
  from detect0_types
  have "fst (detectUnderbilling env0 contract0 [] [subscription0] ([], 0)) \<noteq> []"
    by auto
  then obtain a where
    a: "a \<in> set (fst (detectUnderbilling env0 contract0 [] [subscription0] ([], 0)))"
    using hd_in_set by blast
  from C4_one_time_never_missing_invoice [OF h, of env0 "[]" 0 "[subscription0]" "([], 0)"] h a
  show ?thesis by blast
qed


subsection \<open>Usage overage\<close>






subsection \<open>Alerts about another contract\<close>

lemma foreign_alerts:
  "map (\<lambda>a. (type a, UnderbillingAlert.contractId a, UnderbillingAlert.customerId a))
       (fst (detectUnderbilling env0 contract0 [foreignInvoice] [foreignSubscription] ([], 0)))
     = [(RATE_MISMATCH, ''contract-2'', ''customer-2''),
        (QUANTITY_MISMATCH, ''contract-2'', ''customer-2'')]"
  by (simp add: underbilling_defs fixture_defs foreignSubscription_def foreignInvoice_def Let_def)

text \<open>
  Claim C9. \<open>detectUnderbilling\<close> does not restrict the lists to the contract given: an alert
  of type \<open>usage_overage\<close> or \<open>missing_invoice\<close> carries the identifier and the customer of the
  contract; an alert of type \<open>rate_mismatch\<close> carries the contract identifier and the
  customer of a subscription of the list; an alert of type \<open>quantity_mismatch\<close> carries the
  contract identifier of a subscription of the list and the customer of the first
  subscription of the list with that contract identifier. So a subscription of another
  contract makes the call return alerts about that other contract, as it does for
  \<open>contract0\<close> with \<open>foreignSubscription\<close> and \<open>foreignInvoice\<close>.
\<close>

theorem C9_alerts_follow_the_subscriptions:
  "(\<forall>a\<in>set (fst (detectUnderbilling e c ivs subs st)).
      (type a = USAGE_OVERAGE \<or> type a = MISSING_INVOICE \<longrightarrow>
         UnderbillingAlert.contractId a = Contract.id c
         \<and> UnderbillingAlert.customerId a = Contract.customerId c)
      \<and> (type a = RATE_MISMATCH \<longrightarrow>
           (\<exists>s\<in>set subs. UnderbillingAlert.contractId a = Subscription.contractId s
                 \<and> UnderbillingAlert.customerId a = Subscription.customerId s))
      \<and> (type a = QUANTITY_MISMATCH \<longrightarrow>
           (\<exists>s. find (\<lambda>s. Subscription.contractId s = UnderbillingAlert.contractId a) subs = Some s
                 \<and> UnderbillingAlert.customerId a = Subscription.customerId s)))
   \<and> (\<exists>a\<in>set (fst (detectUnderbilling env0 contract0 [foreignInvoice] [foreignSubscription] ([], 0))).
         type a = RATE_MISMATCH \<and> UnderbillingAlert.contractId a \<noteq> Contract.id contract0)
   \<and> (\<exists>a\<in>set (fst (detectUnderbilling env0 contract0 [foreignInvoice] [foreignSubscription] ([], 0))).
         type a = QUANTITY_MISMATCH \<and> UnderbillingAlert.contractId a \<noteq> Contract.id contract0)"
proof -
  have general: "\<forall>a\<in>set (fst (detectUnderbilling e c ivs subs st)).
      (type a = USAGE_OVERAGE \<or> type a = MISSING_INVOICE \<longrightarrow>
         UnderbillingAlert.contractId a = Contract.id c
         \<and> UnderbillingAlert.customerId a = Contract.customerId c)
      \<and> (type a = RATE_MISMATCH \<longrightarrow>
           (\<exists>s\<in>set subs. UnderbillingAlert.contractId a = Subscription.contractId s
                 \<and> UnderbillingAlert.customerId a = Subscription.customerId s))
      \<and> (type a = QUANTITY_MISMATCH \<longrightarrow>
           (\<exists>s. find (\<lambda>s. Subscription.contractId s = UnderbillingAlert.contractId a) subs = Some s
                 \<and> UnderbillingAlert.customerId a = Subscription.customerId s))"
  proof
    fix a assume "a \<in> set (fst (detectUnderbilling e c ivs subs st))"
    from detectUnderbilling_mem [OF this]
    consider n where "a \<in> set (fst (detectUsageOverage e c subs n))"
      | n where "a \<in> set (fst (detectMissingInvoices e c ivs n))"
      | n where "a \<in> set (fst (detectRateMismatches e subs ivs n))"
      | n where "a \<in> set (fst (detectQuantityMismatches e subs ivs n))"
      by blast
    then show "(type a = USAGE_OVERAGE \<or> type a = MISSING_INVOICE \<longrightarrow>
         UnderbillingAlert.contractId a = Contract.id c
         \<and> UnderbillingAlert.customerId a = Contract.customerId c)
      \<and> (type a = RATE_MISMATCH \<longrightarrow>
           (\<exists>s\<in>set subs. UnderbillingAlert.contractId a = Subscription.contractId s
                 \<and> UnderbillingAlert.customerId a = Subscription.customerId s))
      \<and> (type a = QUANTITY_MISMATCH \<longrightarrow>
           (\<exists>s. find (\<lambda>s. Subscription.contractId s = UnderbillingAlert.contractId a) subs = Some s
                 \<and> UnderbillingAlert.customerId a = Subscription.customerId s))"
    proof cases
      case 1
      from usage_alert [OF this] show ?thesis by simp
    next
      case 2
      from missing_alert [OF this] show ?thesis by simp
    next
      case 3
      from rate_alert [OF this] show ?thesis by simp
    next
      case 4
      from quantity_alert [OF this] show ?thesis by simp
    qed
  qed
  let ?as = "fst (detectUnderbilling env0 contract0 [foreignInvoice] [foreignSubscription] ([], 0))"
  from foreign_alerts obtain a1 a2 where as: "?as = [a1, a2]"
    and a1: "type a1 = RATE_MISMATCH" "UnderbillingAlert.contractId a1 = ''contract-2''"
    and a2: "type a2 = QUANTITY_MISMATCH" "UnderbillingAlert.contractId a2 = ''contract-2''"
    by (auto simp: map_eq_Cons_conv)
  have c0: "Contract.id contract0 = ''contract-1''" by (simp add: contract0_def)
  have rate: "\<exists>a\<in>set ?as. type a = RATE_MISMATCH \<and> UnderbillingAlert.contractId a \<noteq> Contract.id contract0"
    unfolding as using a1 c0 by simp
  have qty: "\<exists>a\<in>set ?as. type a = QUANTITY_MISMATCH \<and> UnderbillingAlert.contractId a \<noteq> Contract.id contract0"
    unfolding as using a2 c0 by simp
  from general rate qty show ?thesis by blast
qed

theorem C9_witness:
  "(\<exists>a\<in>set (fst (detectUnderbilling env0 contract0 [foreignInvoice] [foreignSubscription] ([], 0))).
       type a = RATE_MISMATCH
       \<and> UnderbillingAlert.contractId a = Subscription.contractId foreignSubscription
       \<and> UnderbillingAlert.customerId a = Subscription.customerId foreignSubscription)
   \<and> (\<exists>a\<in>set (fst (detectUnderbilling env0 contract0 [] [subscription0] ([], 0))).
       type a = USAGE_OVERAGE \<and> UnderbillingAlert.contractId a = Contract.id contract0)"
proof -
  note t1 = C9_alerts_follow_the_subscriptions
    [of env0 contract0 "[foreignInvoice]" "[foreignSubscription]" "([], 0)"]
  note t2 = C9_alerts_follow_the_subscriptions
    [of env0 contract0 "[]" "[subscription0]" "([], 0)"]
  from t1 obtain a where a: "a \<in> set (fst (detectUnderbilling env0 contract0 [foreignInvoice] [foreignSubscription] ([], 0)))"
    "type a = RATE_MISMATCH"
    by blast
  with t1 have "\<exists>s\<in>set [foreignSubscription]. UnderbillingAlert.contractId a = Subscription.contractId s
                 \<and> UnderbillingAlert.customerId a = Subscription.customerId s"
    by blast
  with a have p1: "\<exists>a\<in>set (fst (detectUnderbilling env0 contract0 [foreignInvoice] [foreignSubscription] ([], 0))).
       type a = RATE_MISMATCH
       \<and> UnderbillingAlert.contractId a = Subscription.contractId foreignSubscription
       \<and> UnderbillingAlert.customerId a = Subscription.customerId foreignSubscription"
    by auto
  from detect0_types obtain b where b: "fst (detectUnderbilling env0 contract0 [] [subscription0] ([], 0)) = [b]"
    "type b = USAGE_OVERAGE"
    by (auto simp: map_eq_Cons_conv)
  then have "b \<in> set (fst (detectUnderbilling env0 contract0 [] [subscription0] ([], 0)))" by simp
  with t2 b have "UnderbillingAlert.contractId b = Contract.id contract0" by blast
  with b have p2: "\<exists>a\<in>set (fst (detectUnderbilling env0 contract0 [] [subscription0] ([], 0))).
       type a = USAGE_OVERAGE \<and> UnderbillingAlert.contractId a = Contract.id contract0"
    by simp
  from p1 p2 show ?thesis by blast
qed


subsection \<open>Resolving alerts\<close>

lemma resolveAlert_not_found:
  "\<forall>a\<in>set alerts. UnderbillingAlert.id a \<noteq> i \<Longrightarrow> resolveAlert i alerts = (False, alerts)"
  by (induction alerts) simp_all

lemma resolveAlert_found:
  assumes "\<exists>a\<in>set alerts. UnderbillingAlert.id a = i"
  shows "\<exists>pre a post. alerts = pre @ a # post \<and> (\<forall>b\<in>set pre. UnderbillingAlert.id b \<noteq> i)
           \<and> UnderbillingAlert.id a = i
           \<and> resolveAlert i alerts = (True, pre @ a\<lparr>resolved := True\<rparr> # post)"
  using assms
proof (induction alerts)
  case Nil
  then show ?case by simp
next
  case (Cons x xs)
  show ?case
  proof (cases "UnderbillingAlert.id x = i")
    case True
    then have "x # xs = [] @ x # xs \<and> (\<forall>b\<in>set []. UnderbillingAlert.id b \<noteq> i)
           \<and> UnderbillingAlert.id x = i
           \<and> resolveAlert i (x # xs) = (True, [] @ x\<lparr>resolved := True\<rparr> # xs)"
      by simp
    then show ?thesis by blast
  next
    case False
    with Cons.prems have "\<exists>a\<in>set xs. UnderbillingAlert.id a = i" by simp
    from Cons.IH [OF this] obtain pre a post where
      "xs = pre @ a # post" "\<forall>b\<in>set pre. UnderbillingAlert.id b \<noteq> i" "UnderbillingAlert.id a = i"
      "resolveAlert i xs = (True, pre @ a\<lparr>resolved := True\<rparr> # post)"
      by blast
    with False have "x # xs = (x # pre) @ a # post \<and> (\<forall>b\<in>set (x # pre). UnderbillingAlert.id b \<noteq> i)
           \<and> UnderbillingAlert.id a = i
           \<and> resolveAlert i (x # xs) = (True, (x # pre) @ a\<lparr>resolved := True\<rparr> # post)"
      by simp
    then show ?thesis by blast
  qed
qed

lemma resolveAlert_again:
  "resolveAlert i (snd (resolveAlert i alerts)) = resolveAlert i alerts"
  by (induction alerts) (simp_all add: case_prod_beta)

lemma resolveAlert_ids:
  "map UnderbillingAlert.id (snd (resolveAlert i alerts)) = map UnderbillingAlert.id alerts"
  by (induction alerts) (simp_all add: case_prod_beta)


subsection \<open>Identifiers\<close>

lemma snd_collect_Cons:
  "snd (collect f (x # xs) n)
     = (case f x n of None \<Rightarrow> snd (collect f xs n) | Some a \<Rightarrow> snd (collect f xs (Suc n)))"
  by (simp split: option.splits prod.splits)

lemma snd_collectMany_Cons:
  "snd (collectMany f (x # xs) n) = snd (collectMany f xs (snd (f x n)))"
  by (simp split: prod.splits)

lemma collect_ids:
  assumes "\<And>x k a. f x k = Some a \<Longrightarrow> ident a = gen k"
  shows "map ident (fst (collect f xs n)) = map gen [n..<snd (collect f xs n)]
       \<and> n \<le> snd (collect f xs n)"
proof (induction xs arbitrary: n)
  case Nil
  show ?case by simp
next
  case (Cons x xs)
  show ?case
  proof (cases "f x n")
    case None
    with Cons [of n] show ?thesis
      by (simp only: fst_collect_Cons snd_collect_Cons option.case)
  next
    case (Some a)
    from Cons [of "Suc n"] have ih: "map ident (fst (collect f xs (Suc n))) = map gen [Suc n..<snd (collect f xs (Suc n))]"
      and le: "Suc n \<le> snd (collect f xs (Suc n))" by simp_all
    from le have "[n..<snd (collect f xs (Suc n))] = n # [Suc n..<snd (collect f xs (Suc n))]"
      by (simp add: upt_conv_Cons)
    with Some ih le assms [OF Some] show ?thesis
      by (simp only: fst_collect_Cons snd_collect_Cons option.case list.map) simp
  qed
qed

lemma collectMany_ids:
  assumes "\<And>x k. map ident (fst (f x k)) = map gen [k..<snd (f x k)] \<and> k \<le> snd (f x k)"
  shows "map ident (fst (collectMany f xs n)) = map gen [n..<snd (collectMany f xs n)]
       \<and> n \<le> snd (collectMany f xs n)"
proof (induction xs arbitrary: n)
  case Nil
  show ?case by simp
next
  case (Cons x xs)
  let ?n1 = "snd (f x n)" and ?n2 = "snd (collectMany f xs (snd (f x n)))"
  from assms [of x n] have a: "map ident (fst (f x n)) = map gen [n..<?n1]" and le1: "n \<le> ?n1"
    by simp_all
  from Cons [of ?n1] have b: "map ident (fst (collectMany f xs ?n1)) = map gen [?n1..<?n2]"
    and le2: "?n1 \<le> ?n2" by simp_all
  from le1 le2 have "[n..<?n2] = [n..<?n1] @ [?n1..<?n2]"
    by (metis le_Suc_ex upt_add_eq_append)
  with a b le1 le2 show ?case
    by (simp only: fst_collectMany_Cons snd_collectMany_Cons map_append) simp
qed

lemma usage_ids:
  "map UnderbillingAlert.id (fst (detectUsageOverage e c subs n))
     = map (generateId e) [n..<snd (detectUsageOverage e c subs n)]
   \<and> n \<le> snd (detectUsageOverage e c subs n)"
  unfolding detectUsageOverage_def
  by (rule collect_ids) (auto simp: usageOverageAlert_def Let_def split: if_splits)

lemma missing_ids:
  "map UnderbillingAlert.id (fst (detectMissingInvoices e c ivs n))
     = map (generateId e) [n..<snd (detectMissingInvoices e c ivs n)]
   \<and> n \<le> snd (detectMissingInvoices e c ivs n)"
  by (simp add: detectMissingInvoices_def Let_def split: option.splits prod.splits)

lemma rate_ids:
  "map UnderbillingAlert.id (fst (detectRateMismatches e subs ivs n))
     = map (generateId e) [n..<snd (detectRateMismatches e subs ivs n)]
   \<and> n \<le> snd (detectRateMismatches e subs ivs n)"
  unfolding detectRateMismatches_def
proof (rule collectMany_ids)
  fix s k
  show "map UnderbillingAlert.id (fst (rateMismatchesOf e ivs s k))
          = map (generateId e) [k..<snd (rateMismatchesOf e ivs s k)]
        \<and> k \<le> snd (rateMismatchesOf e ivs s k)"
    unfolding rateMismatchesOf_def Let_def
    by (rule collect_ids) (auto simp: rateMismatchAlert_def Let_def split: if_splits)
qed

lemma quantity_ids:
  "map UnderbillingAlert.id (fst (detectQuantityMismatches e subs ivs n))
     = map (generateId e) [n..<snd (detectQuantityMismatches e subs ivs n)]
   \<and> n \<le> snd (detectQuantityMismatches e subs ivs n)"
  unfolding detectQuantityMismatches_def
  by (rule collect_ids)
    (auto simp: quantityMismatchAlert_def Let_def split: if_splits list.splits)

lemma upt_append_le: "(a::nat) \<le> b \<Longrightarrow> b \<le> c \<Longrightarrow> [a..<b] @ [b..<c] = [a..<c]"
  by (metis le_Suc_ex upt_add_eq_append)

lemma detectUnderbilling_ids:
  "map UnderbillingAlert.id (fst (detectUnderbilling e c ivs subs st))
     = map (generateId e) [snd st..<snd (snd (detectUnderbilling e c ivs subs st))]"
proof -
  let ?n1 = "snd (detectUsageOverage e c subs (snd st))"
  let ?n2 = "snd (detectMissingInvoices e c ivs ?n1)"
  let ?n3 = "snd (detectRateMismatches e subs ivs ?n2)"
  let ?n4 = "snd (detectQuantityMismatches e subs ivs ?n3)"
  have res: "fst (detectUnderbilling e c ivs subs st)
       = fst (detectUsageOverage e c subs (snd st)) @ fst (detectMissingInvoices e c ivs ?n1)
           @ fst (detectRateMismatches e subs ivs ?n2) @ fst (detectQuantityMismatches e subs ivs ?n3)"
    and cnt: "snd (snd (detectUnderbilling e c ivs subs st)) = ?n4"
    by (simp_all add: detectUnderbilling_def Let_def case_prod_beta)
  note u = usage_ids [of e c subs "snd st"] and m = missing_ids [of e c ivs ?n1]
    and r = rate_ids [of e subs ivs ?n2] and q = quantity_ids [of e subs ivs ?n3]
  have "map (generateId e) [snd st..<?n4]
      = map (generateId e) (([snd st..<?n1] @ [?n1..<?n2]) @ [?n2..<?n3] @ [?n3..<?n4])"
    using u m r q by (simp add: upt_append_le)
  with u m r q show ?thesis unfolding res cnt by simp
qed

lemma fresh_detect_distinct:
  assumes "inj (generateId e)"
  shows "distinct (map UnderbillingAlert.id (fst (snd (detectUnderbilling e c ivs subs ([], n)))))"
proof -
  have "fst (snd (detectUnderbilling e c ivs subs ([], n))) = fst (detectUnderbilling e c ivs subs ([], n))"
    by (simp add: detectUnderbilling_registry)
  then show ?thesis
    using assms by (simp add: detectUnderbilling_ids distinct_map inj_on_subset [OF _ subset_UNIV])
qed

lemma unresolved_after:
  assumes "\<forall>b\<in>set pre. UnderbillingAlert.id b \<noteq> i" and "UnderbillingAlert.id a = i"
    and "distinct (map UnderbillingAlert.id (pre @ a # post))"
  shows "\<forall>b\<in>set (getUnresolvedAlerts (pre @ a\<lparr>resolved := True\<rparr> # post)). UnderbillingAlert.id b \<noteq> i"
proof
  fix b assume "b \<in> set (getUnresolvedAlerts (pre @ a\<lparr>resolved := True\<rparr> # post))"
  then have "b \<in> set pre \<or> b \<in> set post" by (auto simp: getUnresolvedAlerts_def)
  then show "UnderbillingAlert.id b \<noteq> i"
  proof
    assume "b \<in> set pre"
    with assms(1) show ?thesis by blast
  next
    assume "b \<in> set post"
    then have "UnderbillingAlert.id b \<in> set (map UnderbillingAlert.id post)" by simp
    moreover from assms(3) have "UnderbillingAlert.id a \<notin> set (map UnderbillingAlert.id post)" by simp
    ultimately show ?thesis using assms(2) by metis
  qed
qed

lemma registry0_ids:
  "map UnderbillingAlert.id
     (fst (snd (detectUnderbilling env0 contract0 [foreignInvoice] [foreignSubscription] ([], 0))))
     = [''id-'', ''id-i'']"
  by (simp add: underbilling_defs fixture_defs foreignSubscription_def foreignInvoice_def Let_def)

lemma inj_generateId_env0: "inj (generateId env0)"
proof (rule injI)
  fix n m :: nat
  assume "generateId env0 n = generateId env0 m"
  then have "length (replicate n (CHR ''i'')) = length (replicate m (CHR ''i''))"
    by (simp add: env0_def)
  then show "n = m" by simp
qed

text \<open>
  Claim C8. \<open>resolveAlert\<close> returns false and leaves the registry as it is when no stored
  alert has the identifier. Otherwise it returns true and sets the \<open>resolved\<close> flag of the
  first alert with the identifier, and of no other; that alert is no longer among the
  unresolved alerts (where identifiers are distinct, no unresolved alert has the identifier),
  and a second call returns true again and changes nothing. After \<open>detectUnderbilling\<close> on a
  new detector whose identifiers are generated without repetition, resolving a returned alert
  by its identifier succeeds and removes it from the unresolved alerts.
\<close>

theorem C8_resolveAlert:
  "((\<forall>a\<in>set alerts. UnderbillingAlert.id a \<noteq> i) \<longrightarrow> resolveAlert i alerts = (False, alerts))
   \<and> ((\<exists>a\<in>set alerts. UnderbillingAlert.id a = i) \<longrightarrow>
        fst (resolveAlert i alerts) = True
        \<and> (\<exists>pre a post. alerts = pre @ a # post \<and> (\<forall>b\<in>set pre. UnderbillingAlert.id b \<noteq> i)
              \<and> UnderbillingAlert.id a = i
              \<and> snd (resolveAlert i alerts) = pre @ a\<lparr>resolved := True\<rparr> # post
              \<and> getUnresolvedAlerts (snd (resolveAlert i alerts)) = getUnresolvedAlerts (pre @ post))
        \<and> (distinct (map UnderbillingAlert.id alerts) \<longrightarrow>
             (\<forall>b\<in>set (getUnresolvedAlerts (snd (resolveAlert i alerts))). UnderbillingAlert.id b \<noteq> i))
        \<and> resolveAlert i (snd (resolveAlert i alerts)) = (True, snd (resolveAlert i alerts)))
   \<and> (inj (generateId e) \<longrightarrow>
        (\<forall>a\<in>set (fst (detectUnderbilling e c ivs subs ([], n))).
           fst (resolveAlert (UnderbillingAlert.id a)
                  (fst (snd (detectUnderbilling e c ivs subs ([], n))))) = True
           \<and> (\<forall>b\<in>set (getUnresolvedAlerts
                          (snd (resolveAlert (UnderbillingAlert.id a)
                                  (fst (snd (detectUnderbilling e c ivs subs ([], n))))))).
                 UnderbillingAlert.id b \<noteq> UnderbillingAlert.id a)))"
proof -
  have found: "fst (resolveAlert j xs) = True
        \<and> (\<exists>pre a post. xs = pre @ a # post \<and> (\<forall>b\<in>set pre. UnderbillingAlert.id b \<noteq> j)
              \<and> UnderbillingAlert.id a = j
              \<and> snd (resolveAlert j xs) = pre @ a\<lparr>resolved := True\<rparr> # post
              \<and> getUnresolvedAlerts (snd (resolveAlert j xs)) = getUnresolvedAlerts (pre @ post))
        \<and> (distinct (map UnderbillingAlert.id xs) \<longrightarrow>
             (\<forall>b\<in>set (getUnresolvedAlerts (snd (resolveAlert j xs))). UnderbillingAlert.id b \<noteq> j))
        \<and> resolveAlert j (snd (resolveAlert j xs)) = (True, snd (resolveAlert j xs))"
    if ex: "\<exists>a\<in>set xs. UnderbillingAlert.id a = j" for j xs
  proof -
    from resolveAlert_found [OF ex] obtain pre a post where
      xs: "xs = pre @ a # post" and pre: "\<forall>b\<in>set pre. UnderbillingAlert.id b \<noteq> j"
      and a: "UnderbillingAlert.id a = j"
      and res: "resolveAlert j xs = (True, pre @ a\<lparr>resolved := True\<rparr> # post)"
      by blast
    have un: "getUnresolvedAlerts (snd (resolveAlert j xs)) = getUnresolvedAlerts (pre @ post)"
      by (simp add: res getUnresolvedAlerts_def)
    have di: "distinct (map UnderbillingAlert.id xs) \<longrightarrow>
             (\<forall>b\<in>set (getUnresolvedAlerts (snd (resolveAlert j xs))). UnderbillingAlert.id b \<noteq> j)"
    proof
      assume "distinct (map UnderbillingAlert.id xs)"
      then have "distinct (map UnderbillingAlert.id (pre @ a # post))" unfolding xs .
      from unresolved_after [OF pre a this]
      show "\<forall>b\<in>set (getUnresolvedAlerts (snd (resolveAlert j xs))). UnderbillingAlert.id b \<noteq> j"
        by (simp add: res)
    qed
    have ag: "resolveAlert j (snd (resolveAlert j xs)) = (True, snd (resolveAlert j xs))"
      using resolveAlert_again [of j xs] by (simp add: res)
    have fs: "fst (resolveAlert j xs) = True" by (simp add: res)
    have sn: "snd (resolveAlert j xs) = pre @ a\<lparr>resolved := True\<rparr> # post" by (simp add: res)
    from xs pre a sn un
    have "\<exists>pre a post. xs = pre @ a # post \<and> (\<forall>b\<in>set pre. UnderbillingAlert.id b \<noteq> j)
              \<and> UnderbillingAlert.id a = j
              \<and> snd (resolveAlert j xs) = pre @ a\<lparr>resolved := True\<rparr> # post
              \<and> getUnresolvedAlerts (snd (resolveAlert j xs)) = getUnresolvedAlerts (pre @ post)"
      by blast
    with fs di ag show ?thesis by (intro conjI)
  qed
  have roundtrip: "fst (resolveAlert (UnderbillingAlert.id a)
                  (fst (snd (detectUnderbilling e c ivs subs ([], n))))) = True
           \<and> (\<forall>b\<in>set (getUnresolvedAlerts
                          (snd (resolveAlert (UnderbillingAlert.id a)
                                  (fst (snd (detectUnderbilling e c ivs subs ([], n))))))).
                 UnderbillingAlert.id b \<noteq> UnderbillingAlert.id a)"
    if inj: "inj (generateId e)" and a: "a \<in> set (fst (detectUnderbilling e c ivs subs ([], n)))" for a
  proof -
    let ?reg = "fst (snd (detectUnderbilling e c ivs subs ([], n)))"
    from a have "a \<in> set ?reg" by (simp add: detectUnderbilling_registry)
    then have ex: "\<exists>b\<in>set ?reg. UnderbillingAlert.id b = UnderbillingAlert.id a" by blast
    from found [OF ex] have f: "fst (resolveAlert (UnderbillingAlert.id a) ?reg) = True"
      and d: "distinct (map UnderbillingAlert.id ?reg) \<longrightarrow>
             (\<forall>b\<in>set (getUnresolvedAlerts (snd (resolveAlert (UnderbillingAlert.id a) ?reg))).
                UnderbillingAlert.id b \<noteq> UnderbillingAlert.id a)"
      by (rule conjunct1, rule conjunct2 [THEN conjunct2, THEN conjunct1])
    from d fresh_detect_distinct [OF inj, of c ivs subs n] f show ?thesis
      by (intro conjI) (assumption, rule mp)
  qed
  have nf: "(\<forall>a\<in>set alerts. UnderbillingAlert.id a \<noteq> i) \<longrightarrow> resolveAlert i alerts = (False, alerts)"
    using resolveAlert_not_found [of alerts i] by (rule impI)
  have fo: "(\<exists>a\<in>set alerts. UnderbillingAlert.id a = i) \<longrightarrow>
        fst (resolveAlert i alerts) = True
        \<and> (\<exists>pre a post. alerts = pre @ a # post \<and> (\<forall>b\<in>set pre. UnderbillingAlert.id b \<noteq> i)
              \<and> UnderbillingAlert.id a = i
              \<and> snd (resolveAlert i alerts) = pre @ a\<lparr>resolved := True\<rparr> # post
              \<and> getUnresolvedAlerts (snd (resolveAlert i alerts)) = getUnresolvedAlerts (pre @ post))
        \<and> (distinct (map UnderbillingAlert.id alerts) \<longrightarrow>
             (\<forall>b\<in>set (getUnresolvedAlerts (snd (resolveAlert i alerts))). UnderbillingAlert.id b \<noteq> i))
        \<and> resolveAlert i (snd (resolveAlert i alerts)) = (True, snd (resolveAlert i alerts))"
    using found [of alerts i] by (rule impI)
  have rt: "inj (generateId e) \<longrightarrow>
        (\<forall>a\<in>set (fst (detectUnderbilling e c ivs subs ([], n))).
           fst (resolveAlert (UnderbillingAlert.id a)
                  (fst (snd (detectUnderbilling e c ivs subs ([], n))))) = True
           \<and> (\<forall>b\<in>set (getUnresolvedAlerts
                          (snd (resolveAlert (UnderbillingAlert.id a)
                                  (fst (snd (detectUnderbilling e c ivs subs ([], n))))))).
                 UnderbillingAlert.id b \<noteq> UnderbillingAlert.id a))"
    using roundtrip by (intro impI ballI)
  from nf fo rt show ?thesis by (intro conjI)
qed

theorem C8_witness:
  "resolveAlert ''nope''
       (fst (snd (detectUnderbilling env0 contract0 [foreignInvoice] [foreignSubscription] ([], 0))))
     = (False, fst (snd (detectUnderbilling env0 contract0 [foreignInvoice] [foreignSubscription] ([], 0))))
   \<and> fst (resolveAlert ''id-i''
       (fst (snd (detectUnderbilling env0 contract0 [foreignInvoice] [foreignSubscription] ([], 0)))))
   \<and> \<not> (\<exists>b. b \<in> set (getUnresolvedAlerts (snd (resolveAlert ''id-i''
         (fst (snd (detectUnderbilling env0 contract0 [foreignInvoice] [foreignSubscription] ([], 0)))))))
            \<and> UnderbillingAlert.id b = ''id-i'')
   \<and> inj (generateId env0)"
proof -
  let ?reg = "fst (snd (detectUnderbilling env0 contract0 [foreignInvoice] [foreignSubscription] ([], 0)))"
  note t1 = C8_resolveAlert [of ?reg "''nope''" env0 contract0 "[]" "[]" 0]
  note t2 = C8_resolveAlert [of ?reg "''id-i''" env0 contract0 "[]" "[]" 0]
  have ids: "map UnderbillingAlert.id ?reg = [''id-'', ''id-i'']" by (rule registry0_ids)
  from ids obtain a1 a2 where reg: "?reg = [a1, a2]"
    and a1: "UnderbillingAlert.id a1 = ''id-''" and a2: "UnderbillingAlert.id a2 = ''id-i''"
    by (auto simp: map_eq_Cons_conv)
  have nf: "\<forall>a\<in>set ?reg. UnderbillingAlert.id a \<noteq> ''nope''"
    unfolding reg by (simp add: a1 a2)
  have ex: "\<exists>a\<in>set ?reg. UnderbillingAlert.id a = ''id-i''"
    unfolding reg by (simp add: a2)
  have di: "distinct (map UnderbillingAlert.id ?reg)" unfolding ids by simp
  from t1 nf have p1: "resolveAlert ''nope'' ?reg = (False, ?reg)" by blast
  from t2 ex have p2: "fst (resolveAlert ''id-i'' ?reg)" by simp
  from t2 ex di have p3: "\<not> (\<exists>b. b \<in> set (getUnresolvedAlerts (snd (resolveAlert ''id-i'' ?reg)))
            \<and> UnderbillingAlert.id b = ''id-i'')" by blast
  from p1 p2 p3 inj_generateId_env0 show ?thesis by blast
qed

section \<open>Properties of the usage percentage\<close>

lemma floor_rat_numeral [simp]:
  "\<lfloor>numeral a / numeral b :: rat\<rfloor> = numeral a div numeral b"
  using floor_divide_of_int_eq [of "numeral a" "numeral b", where ?'a = rat] by simp

lemma calculatePercentage_Fin:
  "calculatePercentage (Fin a) (Fin l) = Fin (rounded_percentage a l)"
  by (simp add: calculatePercentage_def rounded_percentage_def round_def)

lemma foldl_plus_finite:
  assumes "\<forall>p\<in>set ps. is_finite p"
  shows "foldl (\<lambda>a b. a + b) (Fin a) ps = Fin (a + sum_list (map fin_val ps))"
  using assms
proof (induction ps arbitrary: a)
  case Nil
  show ?case by simp
next
  case (Cons p ps)
  from Cons.prems obtain r where "p = Fin r" by (auto simp: is_finite_iff)
  with Cons show ?case by (simp add: add.assoc)
qed

lemma usagePercentages_finite:
  assumes "\<forall>s\<in>set (subsWithUsage subs).
             is_finite (num_of (usageAmount s)) \<and> is_finite (num_of (usageLimit s))"
  shows "usagePercentages subs
           = map (\<lambda>s. Fin (rounded_percentage (fin_val (num_of (usageAmount s)))
                                               (fin_val (num_of (usageLimit s)))))
               (subsWithUsage subs)"
  unfolding usagePercentages_def
proof (rule map_cong [OF refl])
  fix s assume "s \<in> set (subsWithUsage subs)"
  with assms obtain a l where "num_of (usageAmount s) = Fin a" "num_of (usageLimit s) = Fin l"
    by (auto simp: is_finite_iff)
  then show "calculatePercentage (num_of (usageAmount s)) (num_of (usageLimit s))
      = Fin (rounded_percentage (fin_val (num_of (usageAmount s))) (fin_val (num_of (usageLimit s))))"
    by (simp add: calculatePercentage_Fin)
qed

lemma avgUsage_finite:
  assumes "\<forall>s\<in>set (subsWithUsage subs).
             is_finite (num_of (usageAmount s)) \<and> is_finite (num_of (usageLimit s))"
    and "subsWithUsage subs \<noteq> []"
  shows "avgUsage subs
           = Fin ((\<Sum>s\<leftarrow>subsWithUsage subs.
                     rounded_percentage (fin_val (num_of (usageAmount s)))
                                        (fin_val (num_of (usageLimit s))))
                  / of_nat (length (subsWithUsage subs)))"
proof -
  let ?ps = "map (\<lambda>s. Fin (rounded_percentage (fin_val (num_of (usageAmount s)))
                                               (fin_val (num_of (usageLimit s)))))
               (subsWithUsage subs)"
  have ps: "usagePercentages subs = ?ps" by (rule usagePercentages_finite [OF assms(1)])
  have "\<forall>p\<in>set ?ps. is_finite p" by auto
  from foldl_plus_finite [OF this, of 0]
  have "foldl (\<lambda>a b. a + b) (Fin 0) ?ps
          = Fin (\<Sum>s\<leftarrow>subsWithUsage subs.
                     rounded_percentage (fin_val (num_of (usageAmount s)))
                                        (fin_val (num_of (usageLimit s))))"
    by (simp add: comp_def)
  with assms(2) show ?thesis
    unfolding avgUsage_def ps by (simp add: of_length_def)
qed

lemma usage_factor_band:
  assumes "subsWithUsage subs \<noteq> []"
  shows "(ScoreFactor.value (calculateUsageFactor e w subs), impact (calculateUsageFactor e w subs))
           = usage_band (avgUsage subs)"
proof -
  from assms have "subs \<noteq> []" by (auto simp: subsWithUsage_def)
  with assms show ?thesis
    by (simp add: calculateUsageFactor_def usage_band_def Let_def)
qed


lemmas usage_defs = calculateUsageFactor_def avgUsage_def usagePercentages_def subsWithUsage_def
  calculatePercentage_def of_length_def num_of_def usageSubscription_def subscription0_def

lemma subscriptions7_factor:
  "ScoreFactor.value (calculateUsageFactor env0 config_scoring subscriptions7) = Fin 70
   \<and> impact (calculateUsageFactor env0 config_scoring subscriptions7) = neutral"
  by (simp add: usage_defs subscriptions7_def Let_def floor_eq_iff)

lemma subscriptions7_spec:
  "usage_band (spec_avgUsage subscriptions7) = (Fin 100, positive)"
  by (simp add: usage_band_def spec_avgUsage_def spec_usage_percentage_def subsWithUsage_def
      subscriptions7_def usageSubscription_def subscription0_def of_length_def num_of_def)

lemma subscriptions7_usage: "subsWithUsage subscriptions7 = subscriptions7"
  by (simp add: subsWithUsage_def subscriptions7_def usageSubscription_def subscription0_def)

text \<open>
  Claim C7 reads the usage percentage as \<open>usageAmount/usageLimit\<times>100\<close>. With three
  subscriptions used at 70.4, 70.4 and 69.4 percent that average is above 70, band 100 and
  positive; the engine averages the whole numbers 70, 70 and 69 and returns 70 and neutral.
\<close>

theorem C7_counterexample:
  "subsWithUsage subscriptions7 \<noteq> []
   \<and> (ScoreFactor.value (calculateUsageFactor env0 config_scoring subscriptions7),
       impact (calculateUsageFactor env0 config_scoring subscriptions7))
      \<noteq> usage_band (spec_avgUsage subscriptions7)
   \<and> (ScoreFactor.value (calculateUsageFactor env0 config_scoring subscriptions7),
       impact (calculateUsageFactor env0 config_scoring subscriptions7)) = (Fin 70, neutral)
   \<and> usage_band (spec_avgUsage subscriptions7) = (Fin 100, positive)"
  by (simp add: subscriptions7_factor subscriptions7_spec subscriptions7_usage)
    (simp add: subscriptions7_def)

text \<open>
  Claim C7, as amended. For every subscription list in which at least one subscription has
  both usage fields defined, the Usage Trend factor is the band (at least 70: 100 and
  positive, at least 40: 70 and neutral, at least 20: 40 and negative, otherwise 20 and
  negative) of the average of the usage percentages that \<open>calculatePercentage\<close> returns for
  these subscriptions; for finite usage fields that percentage is \<open>usageAmount/usageLimit\<times>100\<close>
  rounded to the nearest whole number, and 0 when \<open>usageLimit\<close> is 0.
\<close>

theorem C7_usage_factor_bands_rounded_average:
  assumes "subsWithUsage subs \<noteq> []"
  shows "(ScoreFactor.value (calculateUsageFactor e w subs), impact (calculateUsageFactor e w subs))
           = usage_band (avgUsage subs)
       \<and> ((\<forall>s\<in>set (subsWithUsage subs).
              is_finite (num_of (usageAmount s)) \<and> is_finite (num_of (usageLimit s)))
          \<longrightarrow> avgUsage subs
                = Fin ((\<Sum>s\<leftarrow>subsWithUsage subs.
                          rounded_percentage (fin_val (num_of (usageAmount s)))
                                             (fin_val (num_of (usageLimit s))))
                       / of_nat (length (subsWithUsage subs))))"
  using usage_factor_band [OF assms] avgUsage_finite [OF _ assms] by blast

theorem C7_witness:
  "subsWithUsage subscriptions7 \<noteq> []
   \<and> avgUsage subscriptions7 = Fin (209 / 3)
   \<and> (ScoreFactor.value (calculateUsageFactor env0 config_scoring subscriptions7),
       impact (calculateUsageFactor env0 config_scoring subscriptions7))
      = usage_band (Fin (209 / 3))"
proof -
  have ne: "subsWithUsage subscriptions7 \<noteq> []"
    by (simp add: subscriptions7_usage) (simp add: subscriptions7_def)
  have fin: "\<forall>s\<in>set (subsWithUsage subscriptions7).
         is_finite (num_of (usageAmount s)) \<and> is_finite (num_of (usageLimit s))"
    unfolding subscriptions7_usage
    by (simp add: subscriptions7_def usageSubscription_def num_of_def)
  note t = C7_usage_factor_bands_rounded_average [OF ne, of env0 config_scoring]
  from t fin have "avgUsage subscriptions7
                = Fin ((\<Sum>s\<leftarrow>subsWithUsage subscriptions7.
                          rounded_percentage (fin_val (num_of (usageAmount s)))
                                             (fin_val (num_of (usageLimit s))))
                       / of_nat (length (subsWithUsage subscriptions7)))"
    by blast
  also have "\<dots> = Fin (209 / 3)"
    unfolding subscriptions7_usage
    by (simp add: subscriptions7_def usageSubscription_def num_of_def rounded_percentage_def
        round_def floor_eq_iff)
  finally have avg: "avgUsage subscriptions7 = Fin (209 / 3)" .
  from t have "(ScoreFactor.value (calculateUsageFactor env0 config_scoring subscriptions7),
       impact (calculateUsageFactor env0 config_scoring subscriptions7))
      = usage_band (avgUsage subscriptions7)"
    by blast
  with avg ne show ?thesis by simp
qed


lemma zeroLimit_usage: "subsWithUsage [zeroLimitSubscription] = [zeroLimitSubscription]"
  by (simp add: subsWithUsage_def zeroLimitSubscription_def usageSubscription_def)

lemma zeroLimit_factor:
  "avgUsage [zeroLimitSubscription] = Fin 0
   \<and> ScoreFactor.value (calculateUsageFactor env0 config_scoring [zeroLimitSubscription]) = Fin 20
   \<and> impact (calculateUsageFactor env0 config_scoring [zeroLimitSubscription]) = negative"
  by (simp add: usage_defs zeroLimitSubscription_def Let_def)

text \<open>
  Claim C10. The usage percentage of a subscription whose \<open>usageLimit\<close> is 0 is 0, not the
  result of a division by zero; with finite usage fields, every usage percentage and their
  average are finite; and every factor value, every factor weight and the score of
  \<open>calculateHealthScore\<close> are finite for every input.
\<close>

theorem C10_zero_limit_is_zero_percent:
  "calculatePercentage v (Fin 0) = Fin 0
   \<and> (\<forall>s\<in>set (subsWithUsage subs). usageLimit s = Some (Fin 0) \<longrightarrow>
         calculatePercentage (num_of (usageAmount s)) (num_of (usageLimit s)) = Fin 0)
   \<and> ((\<forall>s\<in>set (subsWithUsage subs).
          is_finite (num_of (usageAmount s)) \<and> is_finite (num_of (usageLimit s)))
       \<longrightarrow> (\<forall>p\<in>set (usagePercentages subs). is_finite p)
            \<and> (subsWithUsage subs \<noteq> [] \<longrightarrow> is_finite (avgUsage subs)))
   \<and> (\<forall>f\<in>set (factors (calculateHealthScore e config_scoring c ivs subs)).
         is_finite (ScoreFactor.value f) \<and> is_finite (weight f))
   \<and> is_finite (score (calculateHealthScore e config_scoring c ivs subs))"
proof -
  have a: "calculatePercentage v (Fin 0) = Fin 0"
    by (simp add: calculatePercentage_def)
  have b: "\<forall>s\<in>set (subsWithUsage subs). usageLimit s = Some (Fin 0) \<longrightarrow>
         calculatePercentage (num_of (usageAmount s)) (num_of (usageLimit s)) = Fin 0"
    by (simp add: calculatePercentage_def num_of_def)
  have c: "(\<forall>s\<in>set (subsWithUsage subs).
          is_finite (num_of (usageAmount s)) \<and> is_finite (num_of (usageLimit s)))
       \<longrightarrow> (\<forall>p\<in>set (usagePercentages subs). is_finite p)
            \<and> (subsWithUsage subs \<noteq> [] \<longrightarrow> is_finite (avgUsage subs))"
  proof
    assume fin: "\<forall>s\<in>set (subsWithUsage subs).
          is_finite (num_of (usageAmount s)) \<and> is_finite (num_of (usageLimit s))"
    have "\<forall>p\<in>set (usagePercentages subs). is_finite p"
      unfolding usagePercentages_finite [OF fin] by auto
    moreover have "subsWithUsage subs \<noteq> [] \<longrightarrow> is_finite (avgUsage subs)"
      using avgUsage_finite [OF fin] by simp
    ultimately show "(\<forall>p\<in>set (usagePercentages subs). is_finite p)
            \<and> (subsWithUsage subs \<noteq> [] \<longrightarrow> is_finite (avgUsage subs))" ..
  qed
  have d: "\<forall>f\<in>set (factors (calculateHealthScore e config_scoring c ivs subs)).
         is_finite (ScoreFactor.value f) \<and> is_finite (weight f)"
    using shipped_factors_finite [of e c ivs subs] by (simp add: calculateHealthScore_def Let_def)
  have e: "is_finite (score (calculateHealthScore e config_scoring c ivs subs))"
    by (simp add: shipped_score)
  from a b c d e show ?thesis by (intro conjI)
qed

theorem C10_witness:
  "zeroLimitSubscription \<in> set (subsWithUsage [zeroLimitSubscription])
   \<and> usageLimit zeroLimitSubscription = Some (Fin 0)
   \<and> calculatePercentage (num_of (usageAmount zeroLimitSubscription))
        (num_of (usageLimit zeroLimitSubscription)) = Fin 0
   \<and> is_finite (avgUsage [zeroLimitSubscription])
   \<and> is_finite (score (calculateHealthScore env0 config_scoring contract0 [] [zeroLimitSubscription]))"
proof -
  note t = C10_zero_limit_is_zero_percent [of _ "[zeroLimitSubscription]" env0 contract0 "[]"]
  have m: "zeroLimitSubscription \<in> set (subsWithUsage [zeroLimitSubscription])"
    by (simp add: zeroLimit_usage)
  have l: "usageLimit zeroLimitSubscription = Some (Fin 0)"
    by (simp add: zeroLimitSubscription_def usageSubscription_def)
  have fin: "\<forall>s\<in>set (subsWithUsage [zeroLimitSubscription]).
          is_finite (num_of (usageAmount s)) \<and> is_finite (num_of (usageLimit s))"
    unfolding zeroLimit_usage
    by (simp add: zeroLimitSubscription_def usageSubscription_def num_of_def)
  have ne: "subsWithUsage [zeroLimitSubscription] \<noteq> []" by (simp add: zeroLimit_usage)
  from t m l have p: "calculatePercentage (num_of (usageAmount zeroLimitSubscription))
        (num_of (usageLimit zeroLimitSubscription)) = Fin 0"
    by blast
  from t fin ne have a: "is_finite (avgUsage [zeroLimitSubscription])" by blast
  from t have s: "is_finite (score (calculateHealthScore env0 config_scoring contract0 [] [zeroLimitSubscription]))"
    by blast
  from m l p a s show ?thesis by (intro conjI)
qed

end
